theory Spec2Isabelle
  imports Complex_Main "HOL-Library.Sublist" "HOL-Library.Word"
begin

section \<open>JavaScript values used by the provider\<close>

text \<open>
  A JavaScript number is an IEEE 754 binary64 value. The finite ones are rationals, so a
  number is modelled as a rational or one of the three special values; \<open>-0\<close> is not
  told apart from \<open>0\<close> (both are falsy and compare equal). Every binary64 value has a
  representative here, comparisons and truthiness agree with JavaScript on them.
\<close>

datatype number = Num rat | NaN | PosInfinity | NegInfinity

text \<open>Truthiness (\<open>ToBoolean\<close>): \<open>0\<close>, \<open>NaN\<close> and the empty string are falsy.\<close>

fun truthy_number :: "number \<Rightarrow> bool" where
  "truthy_number (Num r) = (r \<noteq> 0)"
| "truthy_number NaN = False"
| "truthy_number PosInfinity = True"
| "truthy_number NegInfinity = True"

definition truthy_string :: "string \<Rightarrow> bool" where
  "truthy_string s = (s \<noteq> [])"

text \<open>The relational operator \<open>a < b\<close> on numbers: any comparison with \<open>NaN\<close> is false.\<close>

fun num_less :: "number \<Rightarrow> number \<Rightarrow> bool" where
  "num_less (Num a) (Num b) = (a < b)"
| "num_less (Num a) PosInfinity = True"
| "num_less NegInfinity (Num b) = True"
| "num_less NegInfinity PosInfinity = True"
| "num_less _ _ = False"

text \<open>
  \<open>a || b\<close> where \<open>a\<close> may be \<open>undefined\<close>: the left operand when it is truthy, else
  the right one. \<open>or_default\<close> is the case of a right operand that is always defined,
  \<open>or_undefined\<close> the case where it may be \<open>undefined\<close> too.
\<close>

definition or_default :: "('a \<Rightarrow> bool) \<Rightarrow> 'a option \<Rightarrow> 'a \<Rightarrow> 'a" where
  "or_default truthy a b = (case a of None \<Rightarrow> b | Some v \<Rightarrow> if truthy v then v else b)"

definition or_undefined :: "('a \<Rightarrow> bool) \<Rightarrow> 'a option \<Rightarrow> 'a option \<Rightarrow> 'a option" where
  "or_undefined truthy a b = (case a of None \<Rightarrow> b | Some v \<Rightarrow> if truthy v then Some v else b)"

text \<open>\<open>a ?? b\<close>: the left operand unless it is \<open>undefined\<close>.\<close>

definition nullish_default :: "'a option \<Rightarrow> 'a \<Rightarrow> 'a" where
  "nullish_default a b = (case a of None \<Rightarrow> b | Some v \<Rightarrow> v)"

text \<open>\<open>Array.prototype.join\<close> on strings.\<close>

fun join :: "string \<Rightarrow> string list \<Rightarrow> string" where
  "join sep [] = []"
| "join sep [x] = x"
| "join sep (x # y # ys) = x @ sep @ join sep (y # ys)"

text \<open>
  The decimal numeral of a natural number: what a template literal makes of a
  non-negative integer below \<open>10^21\<close>, such as an HTTP status code.
\<close>

fun show_nat :: "nat \<Rightarrow> string" where
  "show_nat n =
     (if n < 10 then [''0123456789'' ! n]
      else show_nat (n div 10) @ [''0123456789'' ! (n mod 10)])"

declare show_nat.simps [simp del]

text \<open>
  Errors. \<open>Error m\<close> is \<open>new Error(m)\<close>, the only error this module throws itself.
  \<open>fetch\<close> and the body readers of a response reject with a \<open>TypeError\<close> on a network
  failure and with the signal's \<open>TimeoutError\<close> when an \<open>AbortSignal.timeout\<close> fires.
\<close>

datatype exn = Error string | TypeError string | TimeoutError string

text \<open>\<open>`${err}`\<close>: the error's name, a colon and its message.\<close>

fun exn_to_string :: "exn \<Rightarrow> string" where
  "exn_to_string (Error m) = ''Error: '' @ m"
| "exn_to_string (TypeError m) = ''TypeError: '' @ m"
| "exn_to_string (TimeoutError m) = ''TimeoutError: '' @ m"

section \<open>Binary64 arithmetic of the duration computation\<close>

text \<open>
  The duration is computed with two divisions and a multiplication of JavaScript numbers.
  Each of them returns the exact quotient or product rounded to the nearest binary64
  value, ties to the even significand. The values that occur lie between \<open>2^-16\<close> and
  \<open>2^63\<close> (or are \<open>0\<close>), far inside the normal range, so neither overflow nor gradual
  underflow is modelled: a value is rounded to 53 significant bits.
\<close>

function bitlen :: "int \<Rightarrow> int" where
  "bitlen n = (if n \<le> 0 then 0 else 1 + bitlen (n div 2))"
  by pat_completeness auto
termination
  by (relation "measure nat") auto

declare bitlen.simps [simp del]

text \<open>\<open>ilog2 x\<close> is \<open>\<lfloor>log\<^sub>2 x\<rfloor>\<close> for a positive rational \<open>x\<close>.\<close>

definition ilog2 :: "rat \<Rightarrow> int" where
  "ilog2 x = (if 1 \<le> x then bitlen \<lfloor>x\<rfloor> - 1 else - bitlen (\<lceil>1 / x\<rceil> - 1))"

text \<open>Rounding to the nearest integer, ties to even.\<close>

definition round_even :: "rat \<Rightarrow> int" where
  "round_even q =
     (let f = \<lfloor>q\<rfloor>; r = q - of_int f
      in if r < 1 / 2 then f
         else if 1 / 2 < r then f + 1
         else if even f then f else f + 1)"

text \<open>
  A positive rational rounded to 53 significant bits: with \<open>e = \<lfloor>log\<^sub>2 x\<rfloor> - 52\<close> the
  quotient \<open>x / 2^e\<close> lies in \<open>[2^52, 2^53)\<close>, and it is rounded to an integer.
\<close>

definition round53 :: "rat \<Rightarrow> rat" where
  "round53 x = (let e = ilog2 x - 52 in of_int (round_even (x / 2 powi e)) * 2 powi e)"

definition binary64 :: "rat \<Rightarrow> rat" where
  "binary64 x = (if x = 0 then 0 else if 0 < x then round53 x else - round53 (- x))"

definition fdiv :: "rat \<Rightarrow> rat \<Rightarrow> rat" where
  "fdiv x y = binary64 (x / y)"

definition fmul :: "rat \<Rightarrow> rat \<Rightarrow> rat" where
  "fmul x y = binary64 (x * y)"

text \<open>
  \<open>Math.round\<close>: the closest integer, the larger one when two are equally close.
  It is exact (no intermediate rounding).
\<close>

definition Math_round :: "rat \<Rightarrow> int" where
  "Math_round x = \<lfloor>x + 1 / 2\<rfloor>"

text \<open>The local constants \<open>sampleRate\<close> and \<open>bytesPerSample\<close> of \<open>synthesize\<close>.\<close>

definition synthesize_sampleRate :: nat where
  "synthesize_sampleRate = 24000"

definition synthesize_bytesPerSample :: nat where
  "synthesize_bytesPerSample = 2"

text \<open>
  The duration of a payload of \<open>n\<close> bytes, as \<open>synthesize\<close> computes it:
  \<^verbatim>\<open>samples = audio.length / bytesPerSample\<close>,
  \<^verbatim>\<open>durationMs = Math.round((samples / sampleRate) * 1000)\<close>.
\<close>

definition pcm_durationMs :: "nat \<Rightarrow> int" where
  "pcm_durationMs n =
     (let samples = fdiv (of_nat n) (of_nat synthesize_bytesPerSample)
      in Math_round (fmul (fdiv samples (of_nat synthesize_sampleRate)) 1000))"

section \<open>Configuration and the voice catalogue\<close>

text \<open>\<open>OpenAITTSConfig\<close>: every field is optional.\<close>

record tts_config =
  cfg_apiKey :: "string option"
  cfg_model :: "string option"
  cfg_voice :: "string option"
  cfg_speed :: "number option"
  cfg_instructions :: "string option"

text \<open>The three fields of \<open>DEFAULT_CONFIG\<close> that are defined.\<close>

definition DEFAULT_CONFIG_model :: string where
  "DEFAULT_CONFIG_model = ''gpt-4o-mini-tts''"

definition DEFAULT_CONFIG_voice :: string where
  "DEFAULT_CONFIG_voice = ''coral''"

definition DEFAULT_CONFIG_speed :: number where
  "DEFAULT_CONFIG_speed = Num 1"

datatype gender = Male | Female | Neutral

record voice =
  voice_id :: string
  voice_name :: string
  voice_gender :: "gender option"
  voice_description :: "string option"

definition mk_voice :: "string \<Rightarrow> string \<Rightarrow> gender \<Rightarrow> string \<Rightarrow> voice" where
  "mk_voice i n g d =
     \<lparr>voice_id = i, voice_name = n, voice_gender = Some g, voice_description = Some d\<rparr>"

definition OPENAI_VOICES :: "voice list" where
  "OPENAI_VOICES =
     [mk_voice ''alloy'' ''Alloy'' Neutral ''Neutral, balanced'',
      mk_voice ''ash'' ''Ash'' Male ''Clear, professional'',
      mk_voice ''ballad'' ''Ballad'' Female ''Warm, melodic'',
      mk_voice ''coral'' ''Coral'' Female ''Natural, friendly'',
      mk_voice ''echo'' ''Echo'' Male ''Deep, authoritative'',
      mk_voice ''fable'' ''Fable'' Neutral ''Storytelling'',
      mk_voice ''nova'' ''Nova'' Female ''Energetic, youthful'',
      mk_voice ''onyx'' ''Onyx'' Male ''Deep, resonant'',
      mk_voice ''sage'' ''Sage'' Neutral ''Calm, wise'',
      mk_voice ''shimmer'' ''Shimmer'' Female ''Bright, cheerful'',
      mk_voice ''verse'' ''Verse'' Neutral ''Expressive, dynamic'',
      mk_voice ''marin'' ''Marin'' Female ''Best quality female'',
      mk_voice ''cedar'' ''Cedar'' Male ''Best quality male'']"

section \<open>The provider\<close>

text \<open>The private fields of \<open>OpenAITTSProvider\<close>, set once by the constructor.\<close>

record provider =
  apiKey :: string
  model :: string
  defaultVoice :: string
  speed :: number
  instructions :: "string option"

text \<open>
  The constructor. \<open>env\<close> is \<open>process.env.OPENAI_API_KEY\<close>. Every field but
  \<open>instructions\<close> is taken with \<open>||\<close>, so a falsy configured value (an empty string,
  a speed of \<open>0\<close> or \<open>NaN\<close>) gives way to the next operand.
\<close>

definition new_provider :: "string option \<Rightarrow> tts_config \<Rightarrow> provider" where
  "new_provider env config =
     \<lparr>apiKey = or_default truthy_string (or_undefined truthy_string (cfg_apiKey config) env) [],
      model = or_default truthy_string (cfg_model config) DEFAULT_CONFIG_model,
      defaultVoice = or_default truthy_string (cfg_voice config) DEFAULT_CONFIG_voice,
      speed = or_default truthy_number (cfg_speed config) DEFAULT_CONFIG_speed,
      instructions = cfg_instructions config\<rparr>"

text \<open>
  \<open>validateConfig\<close> throws at the first failed check. The speed message interpolates
  a JavaScript number; \<open>num_to_string\<close> stands for the runtime's \<open>Number::toString\<close>.
\<close>

definition validateConfig :: "(number \<Rightarrow> string) \<Rightarrow> provider \<Rightarrow> exn + unit" where
  "validateConfig num_to_string p =
     (if \<not> truthy_string (apiKey p) then Inl (Error ''OPENAI_API_KEY required for OpenAI TTS'')
      else
        let validVoices = map voice_id OPENAI_VOICES in
        if \<not> List.member validVoices (defaultVoice p) then
          Inl (Error (''Invalid voice: '' @ defaultVoice p @ ''. Valid: '' @ join '', '' validVoices))
        else if num_less (speed p) (Num (1 / 4)) \<or> num_less (Num 4) (speed p) then
          Inl (Error (''Speed must be between 0.25 and 4.0, got: '' @ num_to_string (speed p)))
        else
          let validModels = [''gpt-4o-mini-tts'', ''tts-1'', ''tts-1-hd''] in
          if \<not> List.member validModels (model p) then
            Inl (Error (''Invalid model: '' @ model p @ ''. Valid: '' @ join '', '' validModels))
          else Inr ())"

section \<open>The network\<close>

text \<open>
  The body object of a request holds strings and numbers. The source hands
  \<open>JSON.stringify(body)\<close> to \<open>fetch\<close>. The JSON text is represented by the document
  it denotes, member by member in the order written: a string denotes itself, a finite
  number denotes itself, and \<open>NaN\<close> and the infinities are written \<open>null\<close>.
\<close>

datatype json = JString string | JNumber number

datatype json_value = JsonString string | JsonNumber rat | JsonNull

fun JSON_stringify_value :: "json \<Rightarrow> json_value" where
  "JSON_stringify_value (JString s) = JsonString s"
| "JSON_stringify_value (JNumber (Num r)) = JsonNumber r"
| "JSON_stringify_value (JNumber NaN) = JsonNull"
| "JSON_stringify_value (JNumber PosInfinity) = JsonNull"
| "JSON_stringify_value (JNumber NegInfinity) = JsonNull"

fun JSON_stringify :: "(string \<times> json) list \<Rightarrow> (string \<times> json_value) list" where
  "JSON_stringify [] = []"
| "JSON_stringify ((k, v) # members) = (k, JSON_stringify_value v) # JSON_stringify members"

text \<open>
  What is handed to \<open>fetch\<close>: \<open>req_body\<close> is the serialized body, \<open>None\<close> when the
  call passes none; \<open>req_timeout\<close> is the delay of \<open>AbortSignal.timeout\<close> in
  milliseconds, \<open>None\<close> when the call passes no signal.
\<close>

datatype http_method = GET | POST

record request =
  req_url :: string
  req_method :: http_method
  req_headers :: "(string \<times> string) list"
  req_body :: "(string \<times> json_value) list option"
  req_timeout :: "nat option"

text \<open>
  A response: its \<open>ok\<close> flag and status, and what \<open>await response.text()\<close> and
  \<open>await response.arrayBuffer()\<close> give, each of which may reject.
\<close>

type_synonym byte = "8 word"

record response =
  resp_ok :: bool
  resp_status :: nat
  resp_text :: "exn + string"
  resp_arrayBuffer :: "exn + byte list"

datatype fetch_result = Rejected exn | Fulfilled response

text \<open>
  The network answers each request with a result and keeps the list of the requests
  sent, oldest first.
\<close>

record network =
  respond :: "request \<Rightarrow> fetch_result"
  sent :: "request list"

definition fetch :: "request \<Rightarrow> network \<Rightarrow> fetch_result \<times> network" where
  "fetch req net = (respond net req, net\<lparr>sent := sent net @ [req]\<rparr>)"

section \<open>Synthesis\<close>

datatype audio_format =
  Pcm_s16le | Pcm_f32le | Opus | Ogg_opus | Mp3 | Wav | Webm_opus | Mulaw | Alaw

record tts_options =
  opt_voice :: "string option"
  opt_speed :: "number option"
  opt_pitch :: "number option"
  opt_format :: "audio_format option"
  opt_sampleRate :: "number option"
  opt_instructions :: "string option"

record tts_result =
  audio :: "byte list"
  format :: audio_format
  sampleRate :: nat
  durationMs :: int

text \<open>\<open>options?.f\<close>: \<open>undefined\<close> when \<open>options\<close> is.\<close>

definition optional_field :: "'o option \<Rightarrow> ('o \<Rightarrow> 'a option) \<Rightarrow> 'a option" where
  "optional_field options f = (case options of None \<Rightarrow> None | Some opts \<Rightarrow> f opts)"

text \<open>
  The repository holds two revisions of the module. They differ, for the properties
  below, in the \<open>fetch\<close> call of \<open>synthesize\<close> (\<^verbatim>\<open>src/index.ts\<close> passes no signal,
  \<^verbatim>\<open>src/unnamed/part_004\<close> passes \<open>AbortSignal.timeout(30000)\<close>) and in the message that
  \<open>init\<close> logs after a registration.
\<close>

datatype revision = Index_ts | Part_004

definition synthesize_signal :: "revision \<Rightarrow> nat option" where
  "synthesize_signal rv = (case rv of Index_ts \<Rightarrow> None | Part_004 \<Rightarrow> Some 30000)"

text \<open>
  The first lines of \<open>synthesize\<close>: the local constants \<open>voice\<close>, \<open>speed\<close> and
  \<open>effectiveInstructions\<close>, each a per-call option or, when that is falsy, the field
  of the provider.
\<close>

definition synthesize_voice :: "provider \<Rightarrow> tts_options option \<Rightarrow> string" where
  "synthesize_voice p options =
     or_default truthy_string (optional_field options opt_voice) (defaultVoice p)"

definition synthesize_speed :: "provider \<Rightarrow> tts_options option \<Rightarrow> number" where
  "synthesize_speed p options =
     or_default truthy_number (optional_field options opt_speed) (speed p)"

definition effectiveInstructions :: "provider \<Rightarrow> tts_options option \<Rightarrow> string option" where
  "effectiveInstructions p options =
     or_undefined truthy_string (optional_field options opt_instructions) (instructions p)"

text \<open>The request body of \<open>synthesize\<close>, with the instructions added last.\<close>

definition synthesize_body ::
    "provider \<Rightarrow> string \<Rightarrow> tts_options option \<Rightarrow> (string \<times> json) list" where
  "synthesize_body p txt options =
     (let body = [(''model'', JString (model p)),
                  (''input'', JString txt),
                  (''voice'', JString (synthesize_voice p options)),
                  (''response_format'', JString ''pcm''),
                  (''speed'', JNumber (synthesize_speed p options))]
      in case effectiveInstructions p options of
           None \<Rightarrow> body
         | Some i \<Rightarrow>
             if truthy_string i \<and> model p = ''gpt-4o-mini-tts''
             then body @ [(''instructions'', JString i)]
             else body)"

definition synthesize_request ::
    "revision \<Rightarrow> provider \<Rightarrow> string \<Rightarrow> tts_options option \<Rightarrow> request" where
  "synthesize_request rv p txt options =
     \<lparr>req_url = ''https://api.openai.com/v1/audio/speech'',
      req_method = POST,
      req_headers = [(''Authorization'', ''Bearer '' @ apiKey p),
                     (''Content-Type'', ''application/json'')],
      req_body = Some (JSON_stringify (synthesize_body p txt options)),
      req_timeout = synthesize_signal rv\<rparr>"

text \<open>What \<open>synthesize\<close> does with the response, once \<open>fetch\<close> has fulfilled.\<close>

definition synthesize_response :: "response \<Rightarrow> exn + tts_result" where
  "synthesize_response r =
     (if \<not> resp_ok r then
        (case resp_text r of
           Inl e \<Rightarrow> Inl e
         | Inr error \<Rightarrow>
             Inl (Error (''OpenAI TTS failed: '' @ show_nat (resp_status r) @ '' - '' @ error)))
      else
        (case resp_arrayBuffer r of
           Inl e \<Rightarrow> Inl e
         | Inr buf \<Rightarrow>
             Inr \<lparr>audio = buf, format = Pcm_s16le, sampleRate = synthesize_sampleRate,
                  durationMs = pcm_durationMs (length buf)\<rparr>))"

definition synthesize ::
    "revision \<Rightarrow> provider \<Rightarrow> string \<Rightarrow> tts_options option \<Rightarrow> network
      \<Rightarrow> (exn + tts_result) \<times> network" where
  "synthesize rv p txt options net =
     (let (res, net') = fetch (synthesize_request rv p txt options) net
      in case res of
           Rejected e \<Rightarrow> (Inl e, net')
         | Fulfilled r \<Rightarrow> (synthesize_response r, net'))"

text \<open>
  \<open>healthCheck\<close>: the \<open>try\<close> block returns \<open>response.ok\<close> or fails with the rejection of
  \<open>fetch\<close>; the \<open>catch\<close> turns any failure into \<open>false\<close>.
\<close>

definition healthCheck_request :: "provider \<Rightarrow> request" where
  "healthCheck_request p =
     \<lparr>req_url = ''https://api.openai.com/v1/models'',
      req_method = GET,
      req_headers = [(''Authorization'', ''Bearer '' @ apiKey p)],
      req_body = None,
      req_timeout = Some 5000\<rparr>"

definition healthCheck :: "provider \<Rightarrow> network \<Rightarrow> (exn + bool) \<times> network" where
  "healthCheck p net =
     (let (res, net') = fetch (healthCheck_request p) net;
          try_block = (case res of Rejected e \<Rightarrow> Inl e | Fulfilled r \<Rightarrow> Inr (resp_ok r))
      in case try_block of
           Inl e \<Rightarrow> (Inr False, net')
         | Inr b \<Rightarrow> (Inr b, net'))"

section \<open>The plugin\<close>

text \<open>
  The host context: the configuration it hands out, the providers registered with it and
  the two logs written here, oldest entry first. Its methods are taken not to throw.
\<close>

record host =
  host_config :: tts_config
  registered :: "provider list"
  log_info :: "string list"
  log_error :: "string list"

text \<open>
  The module variables \<open>ctx\<close> (set or \<open>null\<close>; \<^verbatim>\<open>src/unnamed/part_004\<close> only) and
  \<open>provider\<close>.
\<close>

record module_state =
  ctx_set :: bool
  module_provider :: "provider option"

definition registered_message :: "revision \<Rightarrow> tts_config \<Rightarrow> provider \<Rightarrow> string" where
  "registered_message rv config p =
     (case rv of
        Index_ts \<Rightarrow>
          ''OpenAI TTS provider registered (model: ''
            @ nullish_default (cfg_model config) DEFAULT_CONFIG_model
            @ '', voice: '' @ nullish_default (cfg_voice config) DEFAULT_CONFIG_voice @ '')''
      | Part_004 \<Rightarrow>
          ''OpenAI TTS provider registered (model: '' @ model p
            @ '', voice: '' @ defaultVoice p @ '')'')"

definition init ::
    "revision \<Rightarrow> (number \<Rightarrow> string) \<Rightarrow> string option \<Rightarrow> module_state \<Rightarrow> host
      \<Rightarrow> (exn + unit) \<times> module_state \<times> host" where
  "init rv num_to_string env m ctx =
     (let config = host_config ctx;
          p = new_provider env config;
          m' = \<lparr>ctx_set = (case rv of Index_ts \<Rightarrow> ctx_set m | Part_004 \<Rightarrow> True),
                module_provider = Some p\<rparr>
      in case validateConfig num_to_string p of
           Inr u \<Rightarrow>
             (Inr (), m',
              ctx\<lparr>registered := registered ctx @ [p],
                  log_info := log_info ctx @ [registered_message rv config p]\<rparr>)
         | Inl err \<Rightarrow>
             (Inr (), m',
              ctx\<lparr>log_error := log_error ctx
                    @ [''Failed to register OpenAI TTS: '' @ exn_to_string err]\<rparr>))"

section \<open>Yardsticks of the specification\<close>

text \<open>
  The specification's range of admissible speeds, \<open>[0.25, 4.0]\<close> with both ends
  included. It is the yardstick for \<open>validateConfig\<close>, not a part of the program.
\<close>

fun speed_in_range :: "number \<Rightarrow> bool" where
  "speed_in_range (Num r) = (1 / 4 \<le> r \<and> r \<le> 4)"
| "speed_in_range NaN = False"
| "speed_in_range PosInfinity = False"
| "speed_in_range NegInfinity = False"

text \<open>
  The specification's duration formula, \<open>round((byteLength / 2 / sampleRate) * 1000)\<close>
  with the sample rate 24000, in exact arithmetic.
\<close>

definition spec_durationMs :: "nat \<Rightarrow> int" where
  "spec_durationMs byteLength = Math_round (of_nat byteLength / 2 / 24000 * 1000)"

section \<open>Sample inputs\<close>

text \<open>The inputs at which the theorems below are instantiated.\<close>

definition sample_config :: tts_config where
  "sample_config =
     \<lparr>cfg_apiKey = Some ''sk-test-key'', cfg_model = None, cfg_voice = None,
      cfg_speed = None, cfg_instructions = None\<rparr>"

definition sample_provider :: provider where
  "sample_provider = new_provider None sample_config"

definition no_options :: tts_options where
  "no_options =
     \<lparr>opt_voice = None, opt_speed = None, opt_pitch = None, opt_format = None,
      opt_sampleRate = None, opt_instructions = None\<rparr>"

definition pcm_response :: "byte list \<Rightarrow> response" where
  "pcm_response buf =
     \<lparr>resp_ok = True, resp_status = 200, resp_text = Inr [], resp_arrayBuffer = Inr buf\<rparr>"

definition failure_response :: "nat \<Rightarrow> string \<Rightarrow> response" where
  "failure_response status txt =
     \<lparr>resp_ok = False, resp_status = status, resp_text = Inr txt, resp_arrayBuffer = Inr []\<rparr>"

definition unreadable_failure_response :: "nat \<Rightarrow> exn \<Rightarrow> response" where
  "unreadable_failure_response status e =
     \<lparr>resp_ok = False, resp_status = status, resp_text = Inl e, resp_arrayBuffer = Inl e\<rparr>"

fun answer_with :: "fetch_result \<Rightarrow> request \<Rightarrow> fetch_result" where
  "answer_with res req = res"

definition network_answering :: "fetch_result \<Rightarrow> network" where
  "network_answering res = \<lparr>respond = answer_with res, sent = []\<rparr>"

text \<open>
  A rendering of numbers for the instances: the runtime's one on natural numbers, on
  \<open>NaN\<close> and on the infinities; other values get a placeholder.
\<close>

fun sample_num_to_string :: "number \<Rightarrow> string" where
  "sample_num_to_string (Num r) =
     (if 0 \<le> r \<and> of_int \<lfloor>r\<rfloor> = r then show_nat (nat \<lfloor>r\<rfloor>) else ''?'')"
| "sample_num_to_string NaN = ''NaN''"
| "sample_num_to_string PosInfinity = ''Infinity''"
| "sample_num_to_string NegInfinity = ''-Infinity''"

definition fresh_module :: module_state where
  "fresh_module = \<lparr>ctx_set = False, module_provider = None\<rparr>"

definition host_with :: "tts_config \<Rightarrow> host" where
  "host_with config = \<lparr>host_config = config, registered = [], log_info = [], log_error = []\<rparr>"

section \<open>Evaluating the binary64 operations\<close>

lemma floor_numeral_div:
  "\<lfloor>(numeral a :: rat) / numeral b\<rfloor> = numeral a div numeral b"
  using floor_divide_of_int_eq [of "numeral a" "numeral b", where ?'a = rat] by simp

lemma floor_one_div:
  "\<lfloor>(1 :: rat) / numeral b\<rfloor> = 1 div numeral b"
  using floor_divide_of_int_eq [of 1 "numeral b", where ?'a = rat] by simp

lemma ceiling_numeral_div:
  "\<lceil>(numeral a :: rat) / numeral b\<rceil> = - ((- numeral a) div numeral b)"
  using floor_divide_of_int_eq [of "- numeral a" "numeral b", where ?'a = rat]
  by (simp add: ceiling_def)

lemma pcm_durationMs_unfold:
  "pcm_durationMs n = Math_round (fmul (fdiv (fdiv (of_nat n) 2) 24000) 1000)"
  by (simp add: pcm_durationMs_def synthesize_sampleRate_def synthesize_bytesPerSample_def)

lemmas binary64_eval =
  fmul_def fdiv_def binary64_def round53_def ilog2_def bitlen.simps round_even_def Let_def Math_round_def
  floor_numeral_div floor_one_div ceiling_numeral_div

lemma pcm_durationMs_0: "pcm_durationMs 0 = 0"
  by (simp add: pcm_durationMs_unfold binary64_eval)

lemma pcm_durationMs_48000: "pcm_durationMs 48000 = 1000"
  by (simp add: pcm_durationMs_unfold binary64_eval)

lemma pcm_durationMs_24072: "pcm_durationMs 24072 = 501"
  by (simp add: pcm_durationMs_unfold binary64_eval)

lemma pcm_durationMs_24: "pcm_durationMs 24 = 1"
  by (simp add: pcm_durationMs_unfold binary64_eval)

lemma pcm_durationMs_1: "pcm_durationMs 1 = 0"
  by (simp add: pcm_durationMs_unfold binary64_eval)

section \<open>What a call of \<open>synthesize\<close> sends and returns\<close>

lemma synthesize_sent:
  "snd (synthesize rv p txt options net)
     = net\<lparr>sent := sent net @ [synthesize_request rv p txt options]\<rparr>"
  by (simp add: synthesize_def fetch_def split: fetch_result.split)

lemma synthesize_fulfilled:
  "respond net (synthesize_request rv p txt options) = Fulfilled r
     \<Longrightarrow> fst (synthesize rv p txt options net) = synthesize_response r"
  by (simp add: synthesize_def fetch_def)

lemma synthesize_rejected:
  "respond net (synthesize_request rv p txt options) = Rejected e
     \<Longrightarrow> fst (synthesize rv p txt options net) = Inl e"
  by (simp add: synthesize_def fetch_def)

lemma respond_network_answering [simp]: "respond (network_answering res) req = res"
  by (simp add: network_answering_def)

lemma sent_network_answering [simp]: "sent (network_answering res) = []"
  by (simp add: network_answering_def)

section \<open>Accuracy of the duration\<close>

text \<open>
  Each binary64 operation is off by at most the fraction \<open>2^-53\<close> of its exact result.
  Three roundings on the way from \<open>n\<close> to the duration leave it within \<open>1/96\<close> of
  \<open>n / 48\<close> for every length below \<open>2^50\<close>, so \<open>Math.round\<close> can only differ from the
  rounding of \<open>n / 48\<close> where \<open>n / 48\<close> lies halfway between two integers.
\<close>

lemma bitlen_bounds:
  "0 < n \<Longrightarrow> 0 < bitlen n \<and> 2 ^ nat (bitlen n - 1) \<le> n \<and> n < 2 ^ nat (bitlen n)"
proof (induction n rule: bitlen.induct)
  case (1 n)
  show ?case
  proof (cases "n div 2 = 0")
    case True
    with \<open>0 < n\<close> have "n = 1" by simp
    then show ?thesis by (simp add: bitlen.simps)
  next
    case False
    with \<open>0 < n\<close> have pos: "0 < n div 2" by simp
    from \<open>0 < n\<close> have "\<not> n \<le> 0" by simp
    from "1.IH" [OF this pos]
    have k: "0 < bitlen (n div 2)" "2 ^ nat (bitlen (n div 2) - 1) \<le> n div 2"
      "n div 2 < 2 ^ nat (bitlen (n div 2))"
      by simp_all
    from \<open>0 < n\<close> have unf: "bitlen n = 1 + bitlen (n div 2)"
      by (subst bitlen.simps) simp
    from k(1) have e: "nat (bitlen (n div 2)) = Suc (nat (bitlen (n div 2) - 1))"
      by simp
    have half: "2 * (n div 2) \<le> n" "n \<le> 2 * (n div 2) + 1"
      by linarith+
    have "2 ^ nat (bitlen (n div 2)) = 2 * (2::int) ^ nat (bitlen (n div 2) - 1)"
      by (subst e) simp
    with k(2) half(1) have lo: "2 ^ nat (bitlen (n div 2)) \<le> n"
      by linarith
    have hi: "n < 2 * 2 ^ nat (bitlen (n div 2))"
      using k(3) half(2) by linarith
    from k(1) have e2: "nat (1 + bitlen (n div 2)) = Suc (nat (bitlen (n div 2)))"
      by simp
    show ?thesis
      using k(1) lo hi by (simp add: unf e2)
  qed
qed


lemma ilog2_bounds:
  assumes "0 < x"
  shows "2 powi (ilog2 x) \<le> x \<and> x < 2 powi (ilog2 x + 1)"
proof (cases "1 \<le> x")
  case True
  define n where "n = \<lfloor>x\<rfloor>"
  from True have npos: "0 < n" by (simp add: n_def)
  note b = bitlen_bounds [OF npos]
  have il: "ilog2 x = bitlen n - 1"
    using True by (simp add: ilog2_def n_def)
  have lo: "(2::rat) powi (bitlen n - 1) = of_int (2 ^ nat (bitlen n - 1))"
    using b by (simp add: power_int_def)
  have hi: "(2::rat) powi (bitlen n) = of_int (2 ^ nat (bitlen n))"
    using b by (simp add: power_int_def)
  have "of_int (2 ^ nat (bitlen n - 1)) \<le> (of_int n :: rat)"
    using b by (simp only: of_int_le_iff)
  also have "\<dots> \<le> x" by (simp add: n_def)
  finally have 1: "2 powi (ilog2 x) \<le> x" by (simp add: il lo)
  from b have "n + 1 \<le> 2 ^ nat (bitlen n)" by simp
  then have "(of_int (n + 1) :: rat) \<le> of_int (2 ^ nat (bitlen n))"
    by (simp only: of_int_le_iff)
  moreover have "x < of_int (n + 1)" unfolding n_def by linarith
  ultimately have 2: "x < 2 powi (ilog2 x + 1)" by (simp add: il hi)
  from 1 2 show ?thesis ..
next
  case False
  define y where "y = 1 / x"
  define m where "m = \<lceil>y\<rceil> - 1"
  from False assms have y1: "1 < y" by (simp add: y_def)
  then have mpos: "0 < m" by (simp add: m_def less_ceiling_iff)
  note b = bitlen_bounds [OF mpos]
  have il: "ilog2 x = - bitlen m"
    using False by (simp add: ilog2_def m_def y_def)
  have ypos: "0 < y" using y1 by simp
  have xy: "x = 1 / y" by (simp add: y_def)
  have my: "of_int m < y" "y \<le> of_int m + 1"
    by (simp_all add: m_def ceiling_correct less_ceiling_iff [symmetric] le_of_int_ceiling)
  have p1: "(2::rat) powi (- bitlen m) = 1 / of_int (2 ^ nat (bitlen m))"
    using b by (simp add: power_int_def inverse_eq_divide power_one_over [symmetric])
  have p2: "(2::rat) powi (- bitlen m + 1) = 1 / of_int (2 ^ nat (bitlen m - 1))"
    using b by (simp add: power_int_def inverse_eq_divide power_one_over [symmetric])
  from b have "m + 1 \<le> 2 ^ nat (bitlen m)" by simp
  then have "(of_int (m + 1) :: rat) \<le> of_int (2 ^ nat (bitlen m))"
    by (simp only: of_int_le_iff)
  with my(2) have "y \<le> of_int (2 ^ nat (bitlen m))" by simp
  with ypos have 1: "1 / of_int (2 ^ nat (bitlen m)) \<le> x"
    unfolding xy by (intro divide_left_mono) simp_all
  from b have "(of_int (2 ^ nat (bitlen m - 1)) :: rat) \<le> of_int m"
    by (simp only: of_int_le_iff)
  from this my(1) have lt: "of_int (2 ^ nat (bitlen m - 1)) < y"
    by (rule le_less_trans)
  have "0 < (of_int (2 ^ nat (bitlen m - 1)) :: rat)" by simp
  with lt ypos have 2: "x < 1 / of_int (2 ^ nat (bitlen m - 1))"
    unfolding xy by (intro divide_strict_left_mono mult_pos_pos) simp_all
  from 1 2 p1 p2 show ?thesis by (simp add: il)
qed

lemma round_even_error: "\<bar>of_int (round_even q) - q\<bar> \<le> 1 / 2"
proof -
  have "of_int \<lfloor>q\<rfloor> \<le> q" "q < of_int \<lfloor>q\<rfloor> + 1" by linarith+
  then show ?thesis
    by (auto simp: round_even_def Let_def)
qed

lemma binary64_error:
  assumes "0 < x"
  shows "\<bar>binary64 x - x\<bar> \<le> x / 2 ^ 53"
proof -
  define s :: rat where "s = 2 powi (ilog2 x - 52)"
  have spos: "0 < s" by (simp add: s_def)
  have b: "binary64 x = of_int (round_even (x / s)) * s"
    using assms by (simp add: binary64_def round53_def s_def Let_def)
  have "binary64 x - x = (of_int (round_even (x / s)) - x / s) * s"
    using spos by (simp add: b algebra_simps)
  then have "\<bar>binary64 x - x\<bar> = \<bar>of_int (round_even (x / s)) - x / s\<bar> * s"
    using spos by (simp add: abs_mult)
  also have "\<dots> \<le> (1 / 2) * s"
    using spos round_even_error [of "x / s"] by (intro mult_right_mono) simp_all
  finally have e: "\<bar>binary64 x - x\<bar> \<le> s / 2" by simp
  have "s = 2 powi (ilog2 x) / 2 ^ 52"
    by (simp add: s_def power_int_diff)
  also have "\<dots> \<le> x / 2 ^ 52"
    using ilog2_bounds [OF assms] by (intro divide_right_mono) simp_all
  finally have "s / 2 \<le> x / 2 ^ 53" by simp
  with e show ?thesis by linarith
qed


lemma binary64_significand:
  assumes "0 < x"
  shows "\<exists>m. binary64 x = of_int m * 2 powi (ilog2 x - 52) \<and> 2 ^ 52 \<le> m \<and> m \<le> 2 ^ 53"
proof -
  define s :: rat where "s = 2 powi (ilog2 x - 52)"
  define m where "m = round_even (x / s)"
  have spos: "0 < s" by (simp add: s_def)
  have b: "binary64 x = of_int m * s"
    using assms by (simp add: binary64_def round53_def s_def m_def Let_def)
  have s1: "2 powi (ilog2 x) = s * 2 ^ 52"
    by (simp add: s_def power_int_diff)
  have s2: "2 powi (ilog2 x + 1) = s * 2 ^ 53"
    by (simp add: s_def power_int_diff power_int_add)
  from ilog2_bounds [OF assms] have "s * 2 ^ 52 \<le> x" "x < s * 2 ^ 53"
    by (simp_all only: s1 s2)
  with spos have q: "2 ^ 52 \<le> x / s" "x / s < 2 ^ 53"
    by (simp_all add: pos_le_divide_eq pos_divide_less_eq mult.commute)
  from round_even_error [of "x / s"]
  have "x / s - 1 / 2 \<le> of_int m" "of_int m \<le> x / s + 1 / 2"
    unfolding m_def by linarith+
  with q have "(2 ^ 52 :: rat) - 1 / 2 \<le> of_int m" "of_int m < (2 ^ 53 :: rat) + 1 / 2"
    by linarith+
  then have "(of_int (2 ^ 52 - 1) :: rat) < of_int m" "(of_int m :: rat) < of_int (2 ^ 53 + 1)"
    by simp_all
  then have "2 ^ 52 - 1 < m" "m < 2 ^ 53 + 1"
    by (simp_all only: of_int_less_iff)
  then have "2 ^ 52 \<le> m" "m \<le> 2 ^ 53" by simp_all
  with b show ?thesis unfolding s_def by blast
qed

lemma binary64_pos:
  assumes "0 < x"
  shows "0 < binary64 x"
proof -
  have "x / 2 ^ 53 < x" using assms by simp
  with binary64_error [OF assms] show ?thesis by linarith
qed

lemma duration_chain_close:
  assumes "0 < a" and "a < 2 ^ 50"
  shows "\<bar>fmul (fdiv (fdiv a 2) 24000) 1000 - a / 48\<bar> < 1 / 96"
proof -
  define x1 where "x1 = binary64 (a / 2)"
  define x2 where "x2 = binary64 (x1 / 24000)"
  define x3 where "x3 = binary64 (x2 * 1000)"
  have x3: "fmul (fdiv (fdiv a 2) 24000) 1000 = x3"
    by (simp add: fmul_def fdiv_def x1_def x2_def x3_def)
  from assms have p0: "0 < a / 2" by simp
  have e1: "\<bar>x1 - a / 2\<bar> \<le> a / 2 / 2 ^ 53"
    unfolding x1_def by (rule binary64_error [OF p0])
  have p1: "0 < x1 / 24000"
    using binary64_pos [OF p0] by (simp add: x1_def)
  have e2: "\<bar>x2 - x1 / 24000\<bar> \<le> x1 / 24000 / 2 ^ 53"
    unfolding x2_def by (rule binary64_error [OF p1])
  have p2: "0 < x2 * 1000"
    using binary64_pos [OF p1] by (simp add: x2_def)
  have e3: "\<bar>x3 - x2 * 1000\<bar> \<le> x2 * 1000 / 2 ^ 53"
    unfolding x3_def by (rule binary64_error [OF p2])
  have c: "(2::rat) ^ 53 = 9007199254740992" "(2::rat) ^ 50 = 1125899906842624"
    by simp_all
  note f1 = abs_le_D1 [OF e1, unfolded c] abs_le_D2 [OF e1, unfolded c]
  note f2 = abs_le_D1 [OF e2, unfolded c] abs_le_D2 [OF e2, unfolded c]
  note f3 = abs_le_D1 [OF e3, unfolded c] abs_le_D2 [OF e3, unfolded c]
  note bound = assms(2) [unfolded c]
  have "x3 - a / 48 < 1 / 96"
    using f1 f2 f3 assms(1) bound by linarith
  moreover have "- (x3 - a / 48) < 1 / 96"
    using f1 f2 f3 assms(1) bound by linarith
  ultimately have "\<bar>x3 - a / 48\<bar> < 1 / 96"
    by (simp only: abs_less_iff)
  then show ?thesis by (simp only: x3)
qed


lemma Math_round_div_48: "Math_round (of_nat n / 48) = int ((n + 24) div 48)"
proof -
  have "(of_nat n / 48 + 1 / 2 :: rat) = of_nat (n + 24) / of_nat 48"
    by simp
  then show ?thesis
    unfolding Math_round_def by (simp only: floor_divide_of_nat_eq)
qed

lemma floor_eq_nat:
  fixes y :: rat
  assumes "of_nat q \<le> y" and "y < of_nat q + 1"
  shows "\<lfloor>y\<rfloor> = int q"
  using assms by (intro floor_unique) simp_all

lemma pcm_durationMs_near:
  assumes "n < 2 ^ 50"
  shows "\<exists>x :: rat. pcm_durationMs n = \<lfloor>x + 1 / 2\<rfloor>
           \<and> x - of_nat n / 48 < 1 / 96 \<and> of_nat n / 48 - x < 1 / 96"
proof (cases "n = 0")
  case True
  have "pcm_durationMs 0 = \<lfloor>(0::rat) + 1 / 2\<rfloor>"
    by (simp add: pcm_durationMs_0 floor_one_div)
  with True show ?thesis by (intro exI [of _ 0]) simp
next
  case False
  define x where "x = fmul (fdiv (fdiv (of_nat n) 2) 24000) 1000"
  from False have a: "(0::rat) < of_nat n" by simp
  from assms have "(of_nat n :: rat) < of_nat (2 ^ 50)"
    by (simp only: of_nat_less_iff)
  then have b: "(of_nat n :: rat) < 2 ^ 50" by simp
  have close: "\<bar>x - of_nat n / 48\<bar> < 1 / 96"
    unfolding x_def by (rule duration_chain_close [OF a b])
  have d: "pcm_durationMs n = \<lfloor>x + 1 / 2\<rfloor>"
    by (simp add: pcm_durationMs_unfold Math_round_def x_def)
  from close have "x - of_nat n / 48 < 1 / 96" "of_nat n / 48 - x < 1 / 96"
    by linarith+
  with d show ?thesis by blast
qed

lemma pcm_durationMs_off_tie:
  assumes "n < 2 ^ 50" and "n mod 48 \<noteq> 24"
  shows "pcm_durationMs n = int ((n + 24) div 48)"
proof -
  from pcm_durationMs_near [OF assms(1)] obtain x :: rat
    where d: "pcm_durationMs n = \<lfloor>x + 1 / 2\<rfloor>"
      and c1: "x - of_nat n / 48 < 1 / 96" and c2: "of_nat n / 48 - x < 1 / 96"
    by blast
  define q where "q = n div 48"
  define r where "r = n mod 48"
  have n: "n = 48 * q + r" by (simp add: q_def r_def)
  have r48: "r < 48" by (simp add: r_def)
  have "(of_nat n :: rat) = of_nat (48 * q + r)" by (simp only: n)
  then have nr: "(of_nat n :: rat) = 48 * of_nat q + of_nat r" by simp
  have q1: "(of_nat (q + 1) :: rat) = of_nat q + 1" by simp
  show ?thesis
  proof (cases "r < 24")
    case True
    then have "(of_nat r :: rat) \<le> of_nat 23" by (simp only: of_nat_le_iff)
    then have r23: "(of_nat r :: rat) \<le> 23" by simp
    have r0: "(0::rat) \<le> of_nat r" by simp
    have "\<lfloor>x + 1 / 2\<rfloor> = int q"
    proof (rule floor_eq_nat)
      show "of_nat q \<le> x + 1 / 2" using c2 nr r0 by linarith
      show "x + 1 / 2 < of_nat q + 1" using c1 nr r23 by linarith
    qed
    moreover from True have "(n + 24) div 48 = q" by (simp add: n)
    ultimately show ?thesis by (simp add: d)
  next
    case False
    with assms(2) have "25 \<le> r" by (simp add: r_def)
    then have "(of_nat 25 :: rat) \<le> of_nat r" by (simp only: of_nat_le_iff)
    then have r25: "(25 :: rat) \<le> of_nat r" by simp
    from r48 have "(of_nat r :: rat) < of_nat 48" by (simp only: of_nat_less_iff)
    then have r47: "(of_nat r :: rat) < 48" by simp
    have "\<lfloor>x + 1 / 2\<rfloor> = int (q + 1)"
    proof (rule floor_eq_nat)
      show "of_nat (q + 1) \<le> x + 1 / 2" using c2 nr r25 q1 by linarith
      show "x + 1 / 2 < of_nat (q + 1) + 1" using c1 nr r47 q1 by linarith
    qed
    moreover from \<open>25 \<le> r\<close> r48 have "(n + 24) div 48 = q + 1"
      unfolding n by (intro div_nat_eqI) simp_all
    ultimately show ?thesis by (simp add: d)
  qed
qed

lemma pcm_durationMs_tie:
  assumes "n < 2 ^ 50" and "n mod 48 = 24"
  shows "pcm_durationMs n = int (n div 48) \<or> pcm_durationMs n = int (n div 48) + 1"
proof -
  from pcm_durationMs_near [OF assms(1)] obtain x :: rat
    where d: "pcm_durationMs n = \<lfloor>x + 1 / 2\<rfloor>"
      and c1: "x - of_nat n / 48 < 1 / 96" and c2: "of_nat n / 48 - x < 1 / 96"
    by blast
  define q where "q = n div 48"
  have n: "n = 48 * q + 24"
    using div_mult_mod_eq [of n 48] by (simp add: q_def assms(2))
  have "(of_nat n :: rat) = of_nat (48 * q + 24)" by (simp only: n)
  then have nr: "(of_nat n :: rat) = 48 * of_nat q + 24" by simp
  have q1: "(of_nat (q + 1) :: rat) = of_nat q + 1" by simp
  show ?thesis
  proof (cases "x + 1 / 2 < of_nat q + 1")
    case True
    have "\<lfloor>x + 1 / 2\<rfloor> = int q"
    proof (rule floor_eq_nat)
      show "of_nat q \<le> x + 1 / 2" using c2 nr by linarith
      show "x + 1 / 2 < of_nat q + 1" by (rule True)
    qed
    then show ?thesis by (simp add: d q_def)
  next
    case False
    have "\<lfloor>x + 1 / 2\<rfloor> = int (q + 1)"
    proof (rule floor_eq_nat)
      show "of_nat (q + 1) \<le> x + 1 / 2" using False q1 by linarith
      show "x + 1 / 2 < of_nat (q + 1) + 1" using c1 nr q1 by linarith
    qed
    then show ?thesis by (simp add: d q_def)
  qed
qed

section \<open>Duration of a successful response\<close>

lemma spec_durationMs_eq: "spec_durationMs n = int ((n + 24) div 48)"
proof -
  have "(of_nat n / 2 / 24000 * 1000 :: rat) = of_nat n / 48" by simp
  then show ?thesis by (simp only: spec_durationMs_def Math_round_div_48)
qed

lemma pcm_durationMs_24168: "pcm_durationMs 24168 = 503"
  by (simp add: pcm_durationMs_unfold binary64_eval)

lemma synthesize_decoded:
  assumes "respond net (synthesize_request rv p txt options) = Fulfilled r"
    and "resp_ok r"
    and "resp_arrayBuffer r = Inr buf"
  shows "fst (synthesize rv p txt options net)
           = Inr \<lparr>audio = buf, format = Pcm_s16le, sampleRate = 24000,
                  durationMs = pcm_durationMs (length buf)\<rparr>"
  using assms
  by (simp add: synthesize_fulfilled synthesize_response_def synthesize_sampleRate_def)

text \<open>
  C1, as the code has it. When the response is successful and its payload of
  \<open>byteLength\<close> bytes is read, \<open>synthesize\<close> returns a result. The specification's
  formula \<open>round((byteLength / 2 / 24000) * 1000)\<close> is \<open>spec_durationMs\<close>, in exact
  arithmetic; the program evaluates it in binary64 arithmetic. For a payload below
  \<open>2^50\<close> bytes the returned \<open>durationMs\<close> is the value of the formula unless
  \<open>byteLength mod 48 = 24\<close>, where the exact value lies halfway between two integers
  and the result is the value of the formula or one less. A payload of 48000 bytes gives
  1000.
\<close>

theorem synthesize_durationMs:
  assumes "respond net (synthesize_request rv p txt options) = Fulfilled r"
    and "resp_ok r"
    and "resp_arrayBuffer r = Inr buf"
  shows "(\<exists>res. fst (synthesize rv p txt options net) = Inr res)
       \<and> (length buf < 2 ^ 50 \<and> length buf mod 48 \<noteq> 24 \<longrightarrow>
             map_sum id durationMs (fst (synthesize rv p txt options net))
               = Inr (spec_durationMs (length buf)))
       \<and> (length buf < 2 ^ 50 \<and> length buf mod 48 = 24 \<longrightarrow>
             map_sum id durationMs (fst (synthesize rv p txt options net))
               = Inr (spec_durationMs (length buf))
           \<or> map_sum id durationMs (fst (synthesize rv p txt options net))
               = Inr (spec_durationMs (length buf) - 1))
       \<and> (length buf = 48000 \<longrightarrow>
             map_sum id durationMs (fst (synthesize rv p txt options net)) = Inr 1000)"
proof -
  let ?n = "length buf"
  let ?d = "map_sum id durationMs (fst (synthesize rv p txt options net))"
  note res = synthesize_decoded [OF assms]
  have d: "?d = Inr (pcm_durationMs ?n)"
    by (simp add: res)
  have off: "?d = Inr (spec_durationMs ?n)" if "?n < 2 ^ 50" "?n mod 48 \<noteq> 24"
    using pcm_durationMs_off_tie [OF that] by (simp add: d spec_durationMs_eq)
  have tie: "?d = Inr (spec_durationMs ?n) \<or> ?d = Inr (spec_durationMs ?n - 1)"
    if "?n < 2 ^ 50" "?n mod 48 = 24"
  proof -
    from that(2) have "(?n + 24) div 48 = ?n div 48 + 1"
      using div_mult_mod_eq [of ?n 48] by (intro div_nat_eqI) simp_all
    then have "spec_durationMs ?n = int (?n div 48) + 1"
      by (simp add: spec_durationMs_eq)
    with pcm_durationMs_tie [OF that] show ?thesis by (auto simp: d)
  qed
  have k: "?n = 48000 \<longrightarrow> ?d = Inr 1000"
    by (simp add: d pcm_durationMs_48000)
  from res off tie k show ?thesis by blast
qed

theorem synthesize_durationMs_witness:
  "respond (network_answering (Fulfilled (pcm_response (replicate 48000 0))))
       (synthesize_request Part_004 sample_provider ''Hello world'' None)
     = Fulfilled (pcm_response (replicate 48000 0))
   \<and> resp_ok (pcm_response (replicate 48000 0))
   \<and> resp_arrayBuffer (pcm_response (replicate 48000 0)) = Inr (replicate 48000 0)
   \<and> length (replicate 48000 (0 :: byte)) = 48000
   \<and> length (replicate 48000 (0 :: byte)) < 2 ^ 50
   \<and> length (replicate 48000 (0 :: byte)) mod 48 \<noteq> 24
   \<and> spec_durationMs (length (replicate 48000 (0 :: byte))) = 1000
   \<and> map_sum id durationMs
        (fst (synthesize Part_004 sample_provider ''Hello world'' None
               (network_answering (Fulfilled (pcm_response (replicate 48000 0)))))) = Inr 1000"
proof -
  let ?r = "pcm_response (replicate 48000 0)"
  let ?net = "network_answering (Fulfilled ?r)"
  have h1: "respond ?net (synthesize_request Part_004 sample_provider ''Hello world'' None)
              = Fulfilled ?r"
    by simp
  have h2: "resp_ok ?r" by (simp add: pcm_response_def)
  have h3: "resp_arrayBuffer ?r = Inr (replicate 48000 0)" by (simp add: pcm_response_def)
  have h4: "length (replicate 48000 (0 :: byte)) = 48000" by simp
  have h5: "length (replicate 48000 (0 :: byte)) < 2 ^ 50
      \<and> length (replicate 48000 (0 :: byte)) mod 48 \<noteq> 24"
    by simp
  have h6: "spec_durationMs (length (replicate 48000 (0 :: byte))) = 1000"
    by (simp add: spec_durationMs_eq)
  from synthesize_durationMs [OF h1 h2 h3] h5
  have "map_sum id durationMs
          (fst (synthesize Part_004 sample_provider ''Hello world'' None ?net))
        = Inr (spec_durationMs (length (replicate 48000 (0 :: byte))))"
    by blast
  with h1 h2 h3 h4 h5 h6 show ?thesis by simp
qed

text \<open>
  The instance at which C1 fails as stated: for a payload of 24168 bytes the formula is
  \<open>round(503.5) = 504\<close>, whether ties go up or to the even neighbour, and \<open>synthesize\<close>
  returns the duration 503.
\<close>

theorem duration_24168_counterexample:
  "resp_ok (pcm_response (replicate 24168 0))
   \<and> resp_arrayBuffer (pcm_response (replicate 24168 0)) = Inr (replicate 24168 0)
   \<and> map_sum id durationMs
        (fst (synthesize Part_004 sample_provider ''Hello world'' None
               (network_answering (Fulfilled (pcm_response (replicate 24168 0)))))) = Inr 503
   \<and> spec_durationMs 24168 = 504
   \<and> round_even (of_nat 24168 / 2 / 24000 * 1000) = 504"
proof -
  let ?r = "pcm_response (replicate 24168 0)"
  let ?net = "network_answering (Fulfilled ?r)"
  have h1: "respond ?net (synthesize_request Part_004 sample_provider ''Hello world'' None)
              = Fulfilled ?r"
    by simp
  have h2: "resp_ok ?r" by (simp add: pcm_response_def)
  have h3: "resp_arrayBuffer ?r = Inr (replicate 24168 0)" by (simp add: pcm_response_def)
  have "map_sum id durationMs
          (fst (synthesize Part_004 sample_provider ''Hello world'' None ?net)) = Inr 503"
    by (simp add: synthesize_decoded [OF h1 h2 h3] pcm_durationMs_24168)
  moreover have "spec_durationMs 24168 = 504"
    by (simp add: spec_durationMs_eq)
  moreover have "round_even (of_nat 24168 / 2 / 24000 * 1000) = 504"
    by (simp add: round_even_def Let_def floor_numeral_div)
  ultimately show ?thesis using h2 h3 by blast
qed

text \<open>
  C9, as the code has it. Decoding a successful response whose payload is read raises
  nothing, whatever the length \<open>n\<close> of the payload, zero and odd lengths included: the
  result carries the payload and a duration. An empty payload gives 0. For \<open>n\<close> below
  \<open>2^50\<close> the duration is \<open>round(n / 48)\<close> unless \<open>n mod 48 = 24\<close>; at those lengths
  \<open>n / 48\<close> is halfway between two integers and the duration is \<open>round(n / 48)\<close> or
  one less, depending on the rounding errors of the binary64 operations.
\<close>

theorem decode_total:
  assumes "respond net (synthesize_request rv p txt options) = Fulfilled r"
    and "resp_ok r"
    and "resp_arrayBuffer r = Inr buf"
  shows "fst (synthesize rv p txt options net)
           = Inr \<lparr>audio = buf, format = Pcm_s16le, sampleRate = 24000,
                  durationMs = pcm_durationMs (length buf)\<rparr>
       \<and> (length buf = 0 \<longrightarrow> pcm_durationMs (length buf) = 0)
       \<and> (length buf < 2 ^ 50 \<and> length buf mod 48 \<noteq> 24 \<longrightarrow>
             pcm_durationMs (length buf) = Math_round (of_nat (length buf) / 48))
       \<and> (length buf < 2 ^ 50 \<and> length buf mod 48 = 24 \<longrightarrow>
             pcm_durationMs (length buf) = Math_round (of_nat (length buf) / 48)
           \<or> pcm_durationMs (length buf) = Math_round (of_nat (length buf) / 48) - 1)"
proof -
  let ?n = "length buf"
  have res: "fst (synthesize rv p txt options net)
      = Inr \<lparr>audio = buf, format = Pcm_s16le, sampleRate = 24000,
             durationMs = pcm_durationMs ?n\<rparr>"
    using assms by (simp add: synthesize_fulfilled synthesize_response_def synthesize_sampleRate_def)
  have empty: "?n = 0 \<longrightarrow> pcm_durationMs ?n = 0"
    by (simp add: pcm_durationMs_0)
  have off: "pcm_durationMs ?n = Math_round (of_nat ?n / 48)"
    if "?n < 2 ^ 50" "?n mod 48 \<noteq> 24"
    using pcm_durationMs_off_tie [OF that] by (simp only: Math_round_div_48)
  have tie: "pcm_durationMs ?n = Math_round (of_nat ?n / 48)
      \<or> pcm_durationMs ?n = Math_round (of_nat ?n / 48) - 1"
    if "?n < 2 ^ 50" "?n mod 48 = 24"
  proof -
    from that(2) have "(?n + 24) div 48 = ?n div 48 + 1"
      using div_mult_mod_eq [of ?n 48] by (intro div_nat_eqI) simp_all
    then have "Math_round (of_nat ?n / 48) = int (?n div 48) + 1"
      by (simp add: Math_round_div_48)
    with pcm_durationMs_tie [OF that] show ?thesis by auto
  qed
  from res empty off tie show ?thesis by blast
qed

theorem decode_total_witness:
  "respond (network_answering (Fulfilled (pcm_response [0])))
       (synthesize_request Part_004 sample_provider ''Hello'' None) = Fulfilled (pcm_response [0])
   \<and> resp_ok (pcm_response [0])
   \<and> resp_arrayBuffer (pcm_response [0]) = Inr [0]
   \<and> length [0 :: byte] < 2 ^ 50 \<and> length [0 :: byte] mod 48 \<noteq> 24
   \<and> fst (synthesize Part_004 sample_provider ''Hello'' None
            (network_answering (Fulfilled (pcm_response [0]))))
      = Inr \<lparr>audio = [0], format = Pcm_s16le, sampleRate = 24000, durationMs = 0\<rparr>
   \<and> length (replicate 24 (0 :: byte)) < 2 ^ 50 \<and> length (replicate 24 (0 :: byte)) mod 48 = 24
   \<and> (pcm_durationMs (length (replicate 24 (0 :: byte))) = 1
        \<or> pcm_durationMs (length (replicate 24 (0 :: byte))) = 0)
   \<and> fst (synthesize Part_004 sample_provider ''Hello'' None
            (network_answering (Fulfilled (pcm_response []))))
      = Inr \<lparr>audio = [], format = Pcm_s16le, sampleRate = 24000, durationMs = 0\<rparr>"
proof -
  let ?r = "\<lambda>buf. pcm_response buf"
  let ?net = "\<lambda>buf. network_answering (Fulfilled (pcm_response buf))"
  have h1: "respond (?net buf) (synthesize_request Part_004 sample_provider ''Hello'' None)
      = Fulfilled (?r buf)" for buf
    by simp
  have h2: "resp_ok (?r buf)" for buf by (simp add: pcm_response_def)
  have h3: "resp_arrayBuffer (?r buf) = Inr buf" for buf by (simp add: pcm_response_def)
  have h4: "length [0 :: byte] < 2 ^ 50 \<and> length [0 :: byte] mod 48 \<noteq> 24" by simp
  have h5: "Math_round (of_nat (length [0 :: byte]) / 48) = 0"
    by (simp add: Math_round_def floor_numeral_div)
  from decode_total [OF h1 h2 h3, of "[0]"] h4 h5
  have a: "fst (synthesize Part_004 sample_provider ''Hello'' None (?net [0]))
      = Inr \<lparr>audio = [0], format = Pcm_s16le, sampleRate = 24000, durationMs = 0\<rparr>"
    by simp
  have h6: "length (replicate 24 (0 :: byte)) < 2 ^ 50
      \<and> length (replicate 24 (0 :: byte)) mod 48 = 24"
    by simp
  have h7: "Math_round (of_nat (length (replicate 24 (0 :: byte))) / 48) = 1"
    by (simp add: Math_round_def)
  from decode_total [OF h1 h2 h3, of "replicate 24 0"] h6 h7
  have b: "pcm_durationMs (length (replicate 24 (0 :: byte))) = 1
      \<or> pcm_durationMs (length (replicate 24 (0 :: byte))) = 0"
    by simp
  from decode_total [OF h1 h2 h3, of "[]"]
  have c: "fst (synthesize Part_004 sample_provider ''Hello'' None (?net []))
      = Inr \<lparr>audio = [], format = Pcm_s16le, sampleRate = 24000, durationMs = 0\<rparr>"
    by simp
  from h1 [of "[0]"] h2 [of "[0]"] h3 [of "[0]"] h4 a h6 b c show ?thesis by blast
qed

text \<open>
  The instance at which C9 fails as stated: a payload of 24072 bytes is decoded with
  the duration 501, while \<open>24072 / 48 = 501.5\<close> rounds to 502, whether ties go up or to
  the even neighbour, and whether the quotient is exact or a binary64 one.
\<close>

theorem duration_24072_counterexample:
  "resp_ok (pcm_response (replicate 24072 0))
   \<and> map_sum id durationMs (synthesize_response (pcm_response (replicate 24072 0))) = Inr 501
   \<and> Math_round (of_nat 24072 / 48) = 502
   \<and> round_even (of_nat 24072 / 48) = 502
   \<and> Math_round (fdiv (of_nat 24072) 48) = 502"
proof -
  have "map_sum id durationMs (synthesize_response (pcm_response (replicate 24072 0))) = Inr 501"
    by (simp add: synthesize_response_def pcm_response_def pcm_durationMs_24072)
  moreover have "Math_round (of_nat 24072 / 48) = 502"
    by (simp add: binary64_eval)
  moreover have "round_even (of_nat 24072 / 48) = 502"
    by (simp add: binary64_eval)
  moreover have "Math_round (fdiv (of_nat 24072) 48) = 502"
    by (simp add: binary64_eval)
  ultimately show ?thesis by (simp add: pcm_response_def)
qed

section \<open>HTTP failures\<close>

lemma show_nat_401: "show_nat 401 = ''401''"
  by (simp add: show_nat.simps)

text \<open>
  C5, as the code has it. When the response has a non-success status, \<open>synthesize\<close>
  fails, and the payload is not looked at: whatever \<open>arrayBuffer()\<close> would give, the
  outcome is the same. When \<open>response.text()\<close> gives the server's text, the error is
  \<open>OpenAI TTS failed: <status> - <text>\<close>, which carries the status code and that
  text. When \<open>response.text()\<close> rejects, \<open>synthesize\<close> fails with that rejection
  instead.
\<close>

theorem synthesize_http_failure:
  assumes "respond net (synthesize_request rv p txt options) = Fulfilled r"
    and "\<not> resp_ok r"
  shows "(\<exists>e. fst (synthesize rv p txt options net) = Inl e)
       \<and> (\<forall>t. resp_text r = Inr t \<longrightarrow>
             fst (synthesize rv p txt options net)
               = Inl (Error (''OpenAI TTS failed: '' @ show_nat (resp_status r) @ '' - '' @ t)))
       \<and> (\<forall>e. resp_text r = Inl e \<longrightarrow> fst (synthesize rv p txt options net) = Inl e)
       \<and> (\<forall>b. synthesize_response (r\<lparr>resp_arrayBuffer := b\<rparr>) = synthesize_response r)
       \<and> (\<forall>b net'. respond net' (synthesize_request rv p txt options)
                       = Fulfilled (r\<lparr>resp_arrayBuffer := b\<rparr>) \<longrightarrow>
             fst (synthesize rv p txt options net') = fst (synthesize rv p txt options net))"
proof -
  have same: "synthesize_response (r\<lparr>resp_arrayBuffer := b\<rparr>) = synthesize_response r" for b
    using assms(2) by (auto simp: synthesize_response_def split: sum.splits)
  have a: "fst (synthesize rv p txt options net) = synthesize_response r"
    using assms(1) by (rule synthesize_fulfilled)
  have b: "fst (synthesize rv p txt options net') = fst (synthesize rv p txt options net)"
    if "respond net' (synthesize_request rv p txt options) = Fulfilled (r\<lparr>resp_arrayBuffer := b\<rparr>)"
    for b net'
    using synthesize_fulfilled [OF that] same [of b] a by simp
  have c: "(\<exists>e. synthesize_response r = Inl e)
      \<and> (\<forall>t. resp_text r = Inr t \<longrightarrow>
            synthesize_response r
              = Inl (Error (''OpenAI TTS failed: '' @ show_nat (resp_status r) @ '' - '' @ t)))
      \<and> (\<forall>e. resp_text r = Inl e \<longrightarrow> synthesize_response r = Inl e)"
    using assms(2) by (auto simp: synthesize_response_def split: sum.splits)
  from a b c same show ?thesis by simp
qed

theorem synthesize_http_failure_witness:
  "respond (network_answering (Fulfilled (failure_response 401 ''Unauthorized'')))
       (synthesize_request Part_004 sample_provider ''Hello'' None)
     = Fulfilled (failure_response 401 ''Unauthorized'')
   \<and> \<not> resp_ok (failure_response 401 ''Unauthorized'')
   \<and> resp_text (failure_response 401 ''Unauthorized'') = Inr ''Unauthorized''
   \<and> fst (synthesize Part_004 sample_provider ''Hello'' None
            (network_answering (Fulfilled (failure_response 401 ''Unauthorized''))))
       = Inl (Error ''OpenAI TTS failed: 401 - Unauthorized'')"
proof -
  let ?r = "failure_response 401 ''Unauthorized''"
  let ?net = "network_answering (Fulfilled ?r)"
  have h1: "respond ?net (synthesize_request Part_004 sample_provider ''Hello'' None) = Fulfilled ?r"
    by simp
  have h2: "\<not> resp_ok ?r" by (simp add: failure_response_def)
  have h3: "resp_text ?r = Inr ''Unauthorized''" by (simp add: failure_response_def)
  have h4: "resp_status ?r = 401" by (simp add: failure_response_def)
  from synthesize_http_failure [OF h1 h2, THEN conjunct2, THEN conjunct1, rule_format, OF h3]
  have "fst (synthesize Part_004 sample_provider ''Hello'' None ?net)
          = Inl (Error ''OpenAI TTS failed: 401 - Unauthorized'')"
    by (simp add: h4 show_nat_401)
  with h1 h2 h3 show ?thesis by blast
qed

text \<open>
  The instance at which C5 fails as stated: the response has the status 502 and reading
  its text rejects. \<open>synthesize\<close> fails with that rejection, a \<open>TypeError\<close> whose text
  holds neither the status code nor any text of the server.
\<close>

theorem unreadable_error_text_counterexample:
  "\<not> resp_ok (unreadable_failure_response 502 (TypeError ''terminated''))
   \<and> resp_status (unreadable_failure_response 502 (TypeError ''terminated'')) = 502
   \<and> fst (synthesize Part_004 sample_provider ''Hello'' None
            (network_answering
              (Fulfilled (unreadable_failure_response 502 (TypeError ''terminated'')))))
       = Inl (TypeError ''terminated'')
   \<and> exn_to_string (TypeError ''terminated'') = ''TypeError: terminated''
   \<and> \<not> sublist ''502'' ''TypeError: terminated''"
proof -
  let ?r = "unreadable_failure_response 502 (TypeError ''terminated'')"
  let ?net = "network_answering (Fulfilled ?r)"
  have h1: "respond ?net (synthesize_request Part_004 sample_provider ''Hello'' None) = Fulfilled ?r"
    by simp
  have "fst (synthesize Part_004 sample_provider ''Hello'' None ?net) = synthesize_response ?r"
    by (rule synthesize_fulfilled [OF h1])
  also have "\<dots> = Inl (TypeError ''terminated'')"
    by (simp add: synthesize_response_def unreadable_failure_response_def)
  finally have a: "fst (synthesize Part_004 sample_provider ''Hello'' None ?net)
      = Inl (TypeError ''terminated'')" .
  have b: "\<not> sublist ''502'' ''TypeError: terminated''"
  proof
    assume "sublist ''502'' ''TypeError: terminated''"
    then have "set ''502'' \<subseteq> set ''TypeError: terminated''"
      by (rule set_mono_sublist)
    then show False by simp
  qed
  have c: "\<not> resp_ok ?r" "resp_status ?r = 502"
    by (simp_all add: unreadable_failure_response_def)
  have d: "exn_to_string (TypeError ''terminated'') = ''TypeError: terminated''"
    by simp
  from a b c d show ?thesis by blast
qed

section \<open>The health check\<close>

text \<open>
  C6. Whatever the models-listing request meets (a response with a success status, one
  with a failure status, a network error, a timeout), \<open>healthCheck\<close> returns a boolean and
  never raises; the boolean is \<open>true\<close> exactly when \<open>fetch\<close> fulfilled with a
  response whose \<open>ok\<close> flag is set.
\<close>

theorem healthCheck_never_raises:
  "fst (healthCheck p net)
     = Inr (\<exists>r. respond net (healthCheck_request p) = Fulfilled r \<and> resp_ok r)"
  by (simp add: healthCheck_def fetch_def split: fetch_result.split)

section \<open>The request built by \<open>synthesize\<close>\<close>

lemma synthesize_sent_last:
  "sent (snd (synthesize rv p txt options net)) = sent net @ [synthesize_request rv p txt options]"
  by (simp add: synthesize_sent)

lemma synthesize_request_body:
  "req_body (synthesize_request rv p txt options)
     = Some (JSON_stringify (synthesize_body p txt options))"
  by (simp add: synthesize_request_def)

lemma map_of_JSON_stringify:
  "map_of (JSON_stringify members) k = map_option JSON_stringify_value (map_of members k)"
  by (induction members rule: JSON_stringify.induct) simp_all

lemma body_has_instructions:
  "(map_of (synthesize_body p txt options) ''instructions'' \<noteq> None)
     = ((\<exists>i. effectiveInstructions p options = Some i \<and> i \<noteq> []) \<and> model p = ''gpt-4o-mini-tts'')"
  by (cases "effectiveInstructions p options")
     (auto simp: synthesize_body_def truthy_string_def Let_def)


lemma body_speed:
  "map_of (synthesize_body p txt options) ''speed'' = Some (JNumber (synthesize_speed p options))"
  by (cases "effectiveInstructions p options") (auto simp: synthesize_body_def Let_def)


lemma truthy_number_iff: "truthy_number s = (s \<noteq> Num 0 \<and> s \<noteq> NaN)"
  by (cases s) auto

lemma sample_provider_fields:
  "apiKey sample_provider = ''sk-test-key''"
  "model sample_provider = ''gpt-4o-mini-tts''"
  "defaultVoice sample_provider = ''coral''"
  "speed sample_provider = Num 1"
  "instructions sample_provider = None"
  by (simp_all add: sample_provider_def new_provider_def sample_config_def or_default_def
        or_undefined_def truthy_string_def DEFAULT_CONFIG_model_def DEFAULT_CONFIG_voice_def DEFAULT_CONFIG_speed_def)

lemma effectiveInstructions_cases:
  assumes "percall = (case options of None \<Rightarrow> None | Some opts \<Rightarrow> opt_instructions opts)"
  shows "effectiveInstructions p options
           = (case percall of
                None \<Rightarrow> instructions p
              | Some i \<Rightarrow> if i = [] then instructions p else Some i)"
  using assms
  by (simp add: effectiveInstructions_def optional_field_def or_undefined_def truthy_string_def
        split: option.splits)

lemma body_instructions:
  "map_of (synthesize_body p txt options) ''instructions''
     = (case effectiveInstructions p options of
          None \<Rightarrow> None
        | Some i \<Rightarrow> if i \<noteq> [] \<and> model p = ''gpt-4o-mini-tts'' then Some (JString i) else None)"
  by (cases "effectiveInstructions p options")
     (auto simp: synthesize_body_def truthy_string_def Let_def)

lemma sent_instructions:
  "map_of (JSON_stringify (synthesize_body p txt options)) ''instructions''
     = (case effectiveInstructions p options of
          None \<Rightarrow> None
        | Some i \<Rightarrow> if i \<noteq> [] \<and> model p = ''gpt-4o-mini-tts'' then Some (JsonString i) else None)"
  by (simp add: map_of_JSON_stringify body_instructions split: option.splits)

text \<open>
  C3. The resolved instructions are the per-call option \<open>options?.instructions\<close> when
  that is a non-empty string, and else the instructions stored in the provider. The
  body that \<open>synthesize\<close> sends has an \<open>instructions\<close> member if and only if the model is
  exactly \<open>gpt-4o-mini-tts\<close> and the resolved instructions are a non-empty string, and
  the member then holds them. With any other model the member is left out whatever the
  instructions are. None of this raises an error: a successful response gives a result.
\<close>

theorem instructions_only_for_gpt_4o_mini_tts:
  assumes "percall = (case options of None \<Rightarrow> None | Some opts \<Rightarrow> opt_instructions opts)"
  shows "sent (snd (synthesize rv p txt options net))
           = sent net @ [synthesize_request rv p txt options]
       \<and> req_body (synthesize_request rv p txt options)
           = Some (JSON_stringify (synthesize_body p txt options))
       \<and> ((map_of (JSON_stringify (synthesize_body p txt options)) ''instructions'' \<noteq> None)
             = (model p = ''gpt-4o-mini-tts''
                \<and> ((\<exists>i. percall = Some i \<and> i \<noteq> [])
                    \<or> (\<exists>j. instructions p = Some j \<and> j \<noteq> []))))
       \<and> (\<forall>i. model p = ''gpt-4o-mini-tts'' \<and> percall = Some i \<and> i \<noteq> [] \<longrightarrow>
             map_of (JSON_stringify (synthesize_body p txt options)) ''instructions''
               = Some (JsonString i))
       \<and> (\<forall>j. model p = ''gpt-4o-mini-tts'' \<and> (percall = None \<or> percall = Some [])
                \<and> instructions p = Some j \<and> j \<noteq> [] \<longrightarrow>
             map_of (JSON_stringify (synthesize_body p txt options)) ''instructions''
               = Some (JsonString j))
       \<and> (model p \<noteq> ''gpt-4o-mini-tts'' \<longrightarrow>
             map_of (JSON_stringify (synthesize_body p txt options)) ''instructions'' = None)
       \<and> (\<forall>r buf. respond net (synthesize_request rv p txt options) = Fulfilled r
                    \<and> resp_ok r \<and> resp_arrayBuffer r = Inr buf
             \<longrightarrow> (\<exists>res. fst (synthesize rv p txt options net) = Inr res))"
proof -
  let ?req = "synthesize_request rv p txt options"
  let ?field = "map_of (JSON_stringify (synthesize_body p txt options)) ''instructions''"
  note eff = effectiveInstructions_cases [OF assms, of p]
  have present: "(?field \<noteq> None)
      = (model p = ''gpt-4o-mini-tts''
         \<and> ((\<exists>i. percall = Some i \<and> i \<noteq> []) \<or> (\<exists>j. instructions p = Some j \<and> j \<noteq> [])))"
    by (auto simp: sent_instructions eff split: option.splits if_splits)
  have given: "?field = Some (JsonString i)"
    if "model p = ''gpt-4o-mini-tts''" "percall = Some i" "i \<noteq> []" for i
    using that by (simp add: sent_instructions eff)
  have stored: "?field = Some (JsonString j)"
    if "model p = ''gpt-4o-mini-tts''" "percall = None \<or> percall = Some []"
      "instructions p = Some j" "j \<noteq> []" for j
    using that by (auto simp: sent_instructions eff)
  have other: "model p \<noteq> ''gpt-4o-mini-tts'' \<longrightarrow> ?field = None"
    by (simp add: sent_instructions split: option.splits)
  have result: "\<exists>res. fst (synthesize rv p txt options net) = Inr res"
    if "respond net ?req = Fulfilled r" "resp_ok r" "resp_arrayBuffer r = Inr buf" for r buf
    using that by (simp add: synthesize_fulfilled synthesize_response_def)
  from synthesize_sent_last [of rv p "txt" options net]
    synthesize_request_body [of rv p "txt" options]
    present given stored other result
  show ?thesis by blast
qed

theorem instructions_only_for_gpt_4o_mini_tts_witness:
  "(None :: string option)
      = (case (None :: tts_options option) of None \<Rightarrow> None | Some opts \<Rightarrow> opt_instructions opts)
   \<and> model (sample_provider\<lparr>model := ''tts-1'', instructions := Some ''Speak softly''\<rparr>)
      \<noteq> ''gpt-4o-mini-tts''
   \<and> respond (network_answering (Fulfilled (pcm_response [])))
        (synthesize_request Part_004
          (sample_provider\<lparr>model := ''tts-1'', instructions := Some ''Speak softly''\<rparr>)
          ''Hello'' None)
      = Fulfilled (pcm_response [])
   \<and> resp_ok (pcm_response []) \<and> resp_arrayBuffer (pcm_response []) = Inr []
   \<and> map_of (JSON_stringify (synthesize_body
        (sample_provider\<lparr>model := ''tts-1'', instructions := Some ''Speak softly''\<rparr>)
        ''Hello'' None)) ''instructions'' = None
   \<and> (\<exists>res. fst (synthesize Part_004
          (sample_provider\<lparr>model := ''tts-1'', instructions := Some ''Speak softly''\<rparr>)
          ''Hello'' None (network_answering (Fulfilled (pcm_response [])))) = Inr res)
   \<and> Some ''Shout''
      = (case Some (no_options\<lparr>opt_instructions := Some ''Shout''\<rparr>) of
           None \<Rightarrow> None | Some opts \<Rightarrow> opt_instructions opts)
   \<and> model sample_provider = ''gpt-4o-mini-tts'' \<and> ''Shout'' \<noteq> []
   \<and> req_body (synthesize_request Part_004 sample_provider ''Hello''
        (Some (no_options\<lparr>opt_instructions := Some ''Shout''\<rparr>)))
      = Some [(''model'', JsonString ''gpt-4o-mini-tts''), (''input'', JsonString ''Hello''),
              (''voice'', JsonString ''coral''), (''response_format'', JsonString ''pcm''),
              (''speed'', JsonNumber 1), (''instructions'', JsonString ''Shout'')]
   \<and> map_of (JSON_stringify (synthesize_body sample_provider ''Hello''
        (Some (no_options\<lparr>opt_instructions := Some ''Shout''\<rparr>)))) ''instructions''
      = Some (JsonString ''Shout'')"
proof -
  let ?p = "sample_provider\<lparr>model := ''tts-1'', instructions := Some ''Speak softly''\<rparr>"
  let ?net = "network_answering (Fulfilled (pcm_response []))"
  let ?o = "Some (no_options\<lparr>opt_instructions := Some ''Shout''\<rparr>)"
  have g1: "(None :: string option)
      = (case (None :: tts_options option) of None \<Rightarrow> None | Some opts \<Rightarrow> opt_instructions opts)"
    by simp
  have h1: "model ?p \<noteq> ''gpt-4o-mini-tts''" by simp
  have h3: "respond ?net (synthesize_request Part_004 ?p ''Hello'' None) = Fulfilled (pcm_response [])"
    by simp
  have h4: "resp_ok (pcm_response [])" "resp_arrayBuffer (pcm_response []) = Inr []"
    by (simp_all add: pcm_response_def)
  from instructions_only_for_gpt_4o_mini_tts [OF g1, of Part_004 ?p "''Hello''" ?net] h1 h3 h4
  have a: "map_of (JSON_stringify (synthesize_body ?p ''Hello'' None)) ''instructions'' = None
      \<and> (\<exists>res. fst (synthesize Part_004 ?p ''Hello'' None ?net) = Inr res)"
    by blast
  have g2: "Some ''Shout'' = (case ?o of None \<Rightarrow> None | Some opts \<Rightarrow> opt_instructions opts)"
    by simp
  have h5: "model sample_provider = ''gpt-4o-mini-tts''" "''Shout'' \<noteq> []"
    by (simp_all add: sample_provider_fields)
  from instructions_only_for_gpt_4o_mini_tts [OF g2, of Part_004 sample_provider "''Hello''" ?net] h5
  have b: "map_of (JSON_stringify (synthesize_body sample_provider ''Hello'' ?o)) ''instructions''
      = Some (JsonString ''Shout'')"
    by blast
  have c: "req_body (synthesize_request Part_004 sample_provider ''Hello'' ?o)
      = Some [(''model'', JsonString ''gpt-4o-mini-tts''), (''input'', JsonString ''Hello''),
              (''voice'', JsonString ''coral''), (''response_format'', JsonString ''pcm''),
              (''speed'', JsonNumber 1), (''instructions'', JsonString ''Shout'')]"
    by (simp add: synthesize_request_def synthesize_body_def synthesize_voice_def
          synthesize_speed_def effectiveInstructions_def optional_field_def or_default_def
          or_undefined_def truthy_string_def no_options_def sample_provider_fields)
  from g1 h1 h3 h4 a g2 h5 b c show ?thesis by blast
qed




lemma sent_speed:
  "map_of (JSON_stringify (synthesize_body p txt options)) ''speed''
     = Some (JSON_stringify_value (JNumber (synthesize_speed p options)))"
  by (simp add: map_of_JSON_stringify body_speed)

lemma sent_speed_infinite:
  assumes "(case options of None \<Rightarrow> None | Some opts \<Rightarrow> opt_speed opts) = Some s"
    and "s = PosInfinity \<or> s = NegInfinity"
  shows "map_of (JSON_stringify (synthesize_body p txt options)) ''speed'' = Some JsonNull"
  using assms
  by (auto simp: sent_speed synthesize_speed_def optional_field_def or_default_def
        split: option.splits)




section \<open>Validation\<close>

lemma valid_voice_ids:
  "map voice_id OPENAI_VOICES =
     [''alloy'', ''ash'', ''ballad'', ''coral'', ''echo'', ''fable'', ''nova'', ''onyx'',
      ''sage'', ''shimmer'', ''verse'', ''marin'', ''cedar'']"
  by (simp add: OPENAI_VOICES_def mk_voice_def)

lemma validateConfig_no_credential:
  "\<not> truthy_string (apiKey p)
     \<Longrightarrow> validateConfig f p = Inl (Error ''OPENAI_API_KEY required for OpenAI TTS'')"
  by (simp add: validateConfig_def)

lemma validateConfig_speed_error:
  assumes "truthy_string (apiKey p)"
    and "List.member (map voice_id OPENAI_VOICES) (defaultVoice p)"
    and "num_less (speed p) (Num (1 / 4)) \<or> num_less (Num 4) (speed p)"
  shows "validateConfig f p
           = Inl (Error (''Speed must be between 0.25 and 4.0, got: '' @ f (speed p)))"
  using assms by (simp add: validateConfig_def Let_def)

lemma validateConfig_fails_on_speed:
  assumes "num_less (speed p) (Num (1 / 4)) \<or> num_less (Num 4) (speed p)"
  shows "\<exists>m. validateConfig f p = Inl (Error m)"
  using assms by (simp add: validateConfig_def Let_def)

lemma validateConfig_accepts:
  assumes "truthy_string (apiKey p)"
    and "List.member (map voice_id OPENAI_VOICES) (defaultVoice p)"
    and "\<not> num_less (speed p) (Num (1 / 4))" and "\<not> num_less (Num 4) (speed p)"
    and "List.member [''gpt-4o-mini-tts'', ''tts-1'', ''tts-1-hd''] (model p)"
  shows "validateConfig f p = Inr ()"
  using assms by (simp add: validateConfig_def Let_def)

lemma out_of_range_num_less:
  "s \<noteq> NaN \<Longrightarrow> \<not> speed_in_range s
     \<Longrightarrow> num_less s (Num (1 / 4)) \<or> num_less (Num 4) s"
  by (cases s) auto

lemma new_provider_speed:
  "speed (new_provider env config) = or_default truthy_number (cfg_speed config) DEFAULT_CONFIG_speed"
  by (simp add: new_provider_def)

lemma joined_voice_ids:
  "join '', '' (map voice_id OPENAI_VOICES)
     = ''alloy, ash, ballad, coral, echo, fable, nova, onyx, sage, shimmer, verse, marin, cedar''"
  by (simp add: valid_voice_ids)

lemma validateConfig_voice_error:
  assumes "apiKey p \<noteq> []"
    and "defaultVoice p \<notin> set (map voice_id OPENAI_VOICES)"
  shows "validateConfig f p
           = Inl (Error (''Invalid voice: '' @ defaultVoice p @ ''. Valid: ''
                 @ ''alloy, ash, ballad, coral, echo, fable, nova, onyx, sage, shimmer, verse, marin, cedar''))"
  using assms
  by (simp add: validateConfig_def Let_def truthy_string_def joined_voice_ids
        del: append.simps list.map)

lemma validated_speed_in_range:
  assumes "validateConfig f (new_provider env config) = Inr ()"
  shows "\<exists>r. speed (new_provider env config) = Num r \<and> 1 / 4 \<le> r \<and> r \<le> 4"
proof -
  let ?p = "new_provider env config"
  have "speed ?p \<noteq> NaN"
    by (auto simp: new_provider_speed or_default_def DEFAULT_CONFIG_speed_def
          split: option.splits)
  moreover from assms have "\<not> num_less (speed ?p) (Num (1 / 4))" "\<not> num_less (Num 4) (speed ?p)"
    by (auto simp: validateConfig_def Let_def split: if_splits)
  ultimately show ?thesis by (cases "speed ?p") auto
qed

text \<open>
  C2, as the code has it. Let a speed be configured. \<open>validateConfig\<close> checks the
  credential first, then the default voice, then the speed. If the configured speed is
  neither \<open>0\<close> nor \<open>NaN\<close> and lies outside \<open>[0.25, 4.0]\<close>, validation fails: with the
  credential error when the credential is missing, with the voice error when the
  default voice is not in the catalogue, and otherwise with the speed error, whose
  message ends with the offending value. A configured speed of \<open>0\<close> or \<open>NaN\<close> is
  falsy: the constructor builds the provider it builds when no speed is configured,
  with the speed \<open>1\<close>, and validation does not reject it. The ends \<open>0.25\<close> and \<open>4\<close> are
  accepted.
\<close>

theorem validateConfig_speed:
  assumes "cfg_speed config = Some s"
    and "p = new_provider env config"
  shows "(s \<noteq> Num 0 \<and> s \<noteq> NaN \<and> \<not> speed_in_range s \<longrightarrow>
            (\<exists>m. validateConfig f p = Inl (Error m))
          \<and> (apiKey p = [] \<longrightarrow>
                validateConfig f p = Inl (Error ''OPENAI_API_KEY required for OpenAI TTS''))
          \<and> (apiKey p \<noteq> []
               \<and> defaultVoice p \<notin> set [''alloy'', ''ash'', ''ballad'', ''coral'', ''echo'',
                    ''fable'', ''nova'', ''onyx'', ''sage'', ''shimmer'', ''verse'', ''marin'',
                    ''cedar'']
              \<longrightarrow> validateConfig f p
                    = Inl (Error (''Invalid voice: '' @ defaultVoice p @ ''. Valid: ''
                        @ ''alloy, ash, ballad, coral, echo, fable, nova, onyx, sage, shimmer, verse, marin, cedar'')))
          \<and> (apiKey p \<noteq> []
               \<and> defaultVoice p \<in> set [''alloy'', ''ash'', ''ballad'', ''coral'', ''echo'',
                    ''fable'', ''nova'', ''onyx'', ''sage'', ''shimmer'', ''verse'', ''marin'',
                    ''cedar'']
              \<longrightarrow> validateConfig f p
                    = Inl (Error (''Speed must be between 0.25 and 4.0, got: '' @ f s))))
       \<and> (s = Num 0 \<or> s = NaN \<longrightarrow>
            p = new_provider env (config\<lparr>cfg_speed := None\<rparr>)
          \<and> speed p = Num 1
          \<and> (apiKey p \<noteq> []
               \<and> defaultVoice p \<in> set [''alloy'', ''ash'', ''ballad'', ''coral'', ''echo'',
                    ''fable'', ''nova'', ''onyx'', ''sage'', ''shimmer'', ''verse'', ''marin'',
                    ''cedar'']
               \<and> model p \<in> set [''gpt-4o-mini-tts'', ''tts-1'', ''tts-1-hd'']
              \<longrightarrow> validateConfig f p = Inr ()))
       \<and> ((s = Num (1 / 4) \<or> s = Num 4)
            \<and> apiKey p \<noteq> []
            \<and> defaultVoice p \<in> set [''alloy'', ''ash'', ''ballad'', ''coral'', ''echo'',
                 ''fable'', ''nova'', ''onyx'', ''sage'', ''shimmer'', ''verse'', ''marin'',
                 ''cedar'']
            \<and> model p \<in> set [''gpt-4o-mini-tts'', ''tts-1'', ''tts-1-hd'']
           \<longrightarrow> validateConfig f p = Inr ())"
proof -
  let ?ids = "[''alloy'', ''ash'', ''ballad'', ''coral'', ''echo'', ''fable'', ''nova'', ''onyx'',
      ''sage'', ''shimmer'', ''verse'', ''marin'', ''cedar'']"
  let ?models = "[''gpt-4o-mini-tts'', ''tts-1'', ''tts-1-hd'']"
  have ids: "map voice_id OPENAI_VOICES = ?ids" by (rule valid_voice_ids)
  have stored: "truthy_number s \<Longrightarrow> speed p = s"
    using assms by (simp add: new_provider_speed or_default_def)
  have replaced: "\<not> truthy_number s \<Longrightarrow> speed p = Num 1"
    using assms by (simp add: new_provider_speed or_default_def DEFAULT_CONFIG_speed_def)
  have absent: "\<not> truthy_number s \<Longrightarrow> p = new_provider env (config\<lparr>cfg_speed := None\<rparr>)"
    using assms by (simp add: new_provider_def or_default_def)
  have key: "validateConfig f p = Inl (Error ''OPENAI_API_KEY required for OpenAI TTS'')"
    if "apiKey p = []"
    using that by (intro validateConfig_no_credential) (simp add: truthy_string_def)
  have voice: "validateConfig f p
      = Inl (Error (''Invalid voice: '' @ defaultVoice p @ ''. Valid: ''
          @ ''alloy, ash, ballad, coral, echo, fable, nova, onyx, sage, shimmer, verse, marin, cedar''))"
    if "apiKey p \<noteq> []" "defaultVoice p \<notin> set ?ids"
    using that by (intro validateConfig_voice_error) (simp_all add: ids)
  have outside: "validateConfig f p
      = Inl (Error (''Speed must be between 0.25 and 4.0, got: '' @ f s))"
    if "s \<noteq> Num 0" "s \<noteq> NaN" "\<not> speed_in_range s" "apiKey p \<noteq> []" "defaultVoice p \<in> set ?ids"
  proof -
    from that have sp: "speed p = s"
      by (simp add: stored truthy_number_iff)
    from that have nl: "num_less (speed p) (Num (1 / 4)) \<or> num_less (Num 4) (speed p)"
      by (simp add: sp out_of_range_num_less)
    from that(5) have "List.member (map voice_id OPENAI_VOICES) (defaultVoice p)"
      by (simp only: ids) simp
    with that(4) nl show ?thesis
      using validateConfig_speed_error [of p f] by (simp add: truthy_string_def sp)
  qed
  have fails: "\<exists>m. validateConfig f p = Inl (Error m)"
    if "s \<noteq> Num 0" "s \<noteq> NaN" "\<not> speed_in_range s"
  proof -
    from that have sp: "speed p = s"
      by (simp add: stored truthy_number_iff)
    from that have "num_less (speed p) (Num (1 / 4)) \<or> num_less (Num 4) (speed p)"
      by (simp add: sp out_of_range_num_less)
    then show ?thesis by (rule validateConfig_fails_on_speed)
  qed
  have accepts: "validateConfig f p = Inr ()"
    if "speed p = Num r" "1 / 4 \<le> r" "r \<le> 4" "apiKey p \<noteq> []" "defaultVoice p \<in> set ?ids"
      "model p \<in> set ?models" for r
  proof -
    from that(5) have "List.member (map voice_id OPENAI_VOICES) (defaultVoice p)"
      by (simp only: ids) simp
    moreover from that(6) have "List.member ?models (model p)" by simp
    ultimately show ?thesis
      using that(1-4) by (intro validateConfig_accepts) (simp_all add: truthy_string_def)
  qed
  have zero: "p = new_provider env (config\<lparr>cfg_speed := None\<rparr>) \<and> speed p = Num 1
      \<and> (apiKey p \<noteq> [] \<and> defaultVoice p \<in> set ?ids \<and> model p \<in> set ?models
          \<longrightarrow> validateConfig f p = Inr ())"
    if "s = Num 0 \<or> s = NaN"
  proof -
    from that have nt: "\<not> truthy_number s" by auto
    from replaced [OF nt] have "speed p = Num 1" .
    with absent [OF nt] accepts [of 1] show ?thesis by simp
  qed
  have ends: "validateConfig f p = Inr ()"
    if "s = Num (1 / 4) \<or> s = Num 4" "apiKey p \<noteq> []" "defaultVoice p \<in> set ?ids"
      "model p \<in> set ?models"
  proof -
    from that(1) have "truthy_number s" by auto
    then have "speed p = s" by (rule stored)
    with that(1) have "speed p = Num (1 / 4) \<or> speed p = Num 4" by simp
    then show ?thesis
      using accepts [of "1 / 4"] accepts [of 4] that(2-4) by auto
  qed
  from key voice outside fails zero ends show ?thesis by blast
qed

lemma show_nat_5: "show_nat 5 = ''5''"
  by (simp add: show_nat.simps)

lemma new_provider_sample_speed:
  "apiKey (new_provider None (sample_config\<lparr>cfg_speed := Some s\<rparr>)) = ''sk-test-key''"
  "defaultVoice (new_provider None (sample_config\<lparr>cfg_speed := Some s\<rparr>)) = ''coral''"
  "model (new_provider None (sample_config\<lparr>cfg_speed := Some s\<rparr>)) = ''gpt-4o-mini-tts''"
  by (simp_all add: new_provider_def sample_config_def or_default_def or_undefined_def
        truthy_string_def DEFAULT_CONFIG_model_def DEFAULT_CONFIG_voice_def)

theorem validateConfig_speed_witness:
  "cfg_speed (sample_config\<lparr>cfg_speed := Some (Num 5)\<rparr>) = Some (Num 5)
   \<and> Num 5 \<noteq> Num 0 \<and> Num 5 \<noteq> NaN \<and> \<not> speed_in_range (Num 5)
   \<and> apiKey (new_provider None (sample_config\<lparr>cfg_speed := Some (Num 5)\<rparr>)) \<noteq> []
   \<and> defaultVoice (new_provider None (sample_config\<lparr>cfg_speed := Some (Num 5)\<rparr>)) = ''coral''
   \<and> model (new_provider None (sample_config\<lparr>cfg_speed := Some (Num 5)\<rparr>)) = ''gpt-4o-mini-tts''
   \<and> validateConfig sample_num_to_string
        (new_provider None (sample_config\<lparr>cfg_speed := Some (Num 5)\<rparr>))
      = Inl (Error ''Speed must be between 0.25 and 4.0, got: 5'')
   \<and> apiKey (new_provider None (sample_config\<lparr>cfg_apiKey := None, cfg_speed := Some (Num 5)\<rparr>)) = []
   \<and> validateConfig sample_num_to_string
        (new_provider None (sample_config\<lparr>cfg_apiKey := None, cfg_speed := Some (Num 5)\<rparr>))
      = Inl (Error ''OPENAI_API_KEY required for OpenAI TTS'')
   \<and> validateConfig sample_num_to_string
        (new_provider None (sample_config\<lparr>cfg_speed := Some (Num (1 / 4))\<rparr>)) = Inr ()
   \<and> validateConfig sample_num_to_string
        (new_provider None (sample_config\<lparr>cfg_speed := Some (Num 4)\<rparr>)) = Inr ()
   \<and> validateConfig sample_num_to_string
        (new_provider None (sample_config\<lparr>cfg_speed := Some (Num 0)\<rparr>)) = Inr ()
   \<and> speed (new_provider None (sample_config\<lparr>cfg_speed := Some NaN\<rparr>)) = Num 1"
proof -
  let ?c = "\<lambda>s. sample_config\<lparr>cfg_speed := Some s\<rparr>"
  let ?k = "sample_config\<lparr>cfg_apiKey := None, cfg_speed := Some (Num 5)\<rparr>"
  let ?ids = "[''alloy'', ''ash'', ''ballad'', ''coral'', ''echo'', ''fable'', ''nova'', ''onyx'',
      ''sage'', ''shimmer'', ''verse'', ''marin'', ''cedar'']"
  have h0: "cfg_speed (?c s) = Some s" for s by simp
  have h1: "Num 5 \<noteq> Num 0" "Num 5 \<noteq> NaN" "\<not> speed_in_range (Num 5)" by simp_all
  have h2: "apiKey (new_provider None (?c s)) \<noteq> []" for s
    by (simp add: new_provider_sample_speed)
  have h3: "defaultVoice (new_provider None (?c s)) \<in> set ?ids" for s
    by (simp add: new_provider_sample_speed)
  have h4: "model (new_provider None (?c s)) \<in> set [''gpt-4o-mini-tts'', ''tts-1'', ''tts-1-hd'']"
    for s
    by (simp add: new_provider_sample_speed)
  have h5: "sample_num_to_string (Num 5) = ''5''"
    by (simp add: show_nat_5)
  have h6: "cfg_speed ?k = Some (Num 5)" by simp
  have h7: "apiKey (new_provider None ?k) = []"
    by (simp add: new_provider_def sample_config_def or_default_def or_undefined_def)
  from validateConfig_speed [OF h0 refl, of "Num 5" sample_num_to_string None] h1 h2 h3
  have "validateConfig sample_num_to_string (new_provider None (?c (Num 5)))
      = Inl (Error (''Speed must be between 0.25 and 4.0, got: '' @ sample_num_to_string (Num 5)))"
    by blast
  then have a: "validateConfig sample_num_to_string (new_provider None (?c (Num 5)))
      = Inl (Error ''Speed must be between 0.25 and 4.0, got: 5'')"
    by (simp only: h5 append.simps)
  from validateConfig_speed [OF h6 refl, of sample_num_to_string None] h1 h7
  have k: "validateConfig sample_num_to_string (new_provider None ?k)
      = Inl (Error ''OPENAI_API_KEY required for OpenAI TTS'')"
    by blast
  from validateConfig_speed [OF h0 refl, of "Num (1 / 4)" sample_num_to_string None] h2 h3 h4
  have b: "validateConfig sample_num_to_string (new_provider None (?c (Num (1 / 4)))) = Inr ()"
    by blast
  from validateConfig_speed [OF h0 refl, of "Num 4" sample_num_to_string None] h2 h3 h4
  have c: "validateConfig sample_num_to_string (new_provider None (?c (Num 4))) = Inr ()"
    by blast
  from validateConfig_speed [OF h0 refl, of "Num 0" sample_num_to_string None] h2 h3 h4
  have z: "validateConfig sample_num_to_string (new_provider None (?c (Num 0))) = Inr ()"
    by blast
  from validateConfig_speed [OF h0 refl, of NaN sample_num_to_string None]
  have d: "speed (new_provider None (?c NaN)) = Num 1"
    by blast
  from h0 h1 h2 h7 a k b c z d show ?thesis
    by (simp add: new_provider_sample_speed)
qed

text \<open>
  The instance at which C2 fails as stated: the configured speed \<open>0\<close> lies outside
  \<open>[0.25, 4.0]\<close>, and \<open>validateConfig\<close> accepts the provider built from it.
\<close>

theorem configured_speed_zero_counterexample:
  "cfg_speed (sample_config\<lparr>cfg_speed := Some (Num 0)\<rparr>) = Some (Num 0)
   \<and> \<not> speed_in_range (Num 0)
   \<and> validateConfig sample_num_to_string
        (new_provider None (sample_config\<lparr>cfg_speed := Some (Num 0)\<rparr>)) = Inr ()"
proof -
  let ?p = "new_provider None (sample_config\<lparr>cfg_speed := Some (Num 0)\<rparr>)"
  have "speed ?p = Num 1"
    by (simp add: new_provider_speed or_default_def DEFAULT_CONFIG_speed_def)
  then have "validateConfig sample_num_to_string ?p = Inr ()"
    by (intro validateConfig_accepts)
       (simp_all add: new_provider_sample_speed truthy_string_def valid_voice_ids)
  then show ?thesis by simp
qed

section \<open>Initialisation\<close>

lemma init_on_failure:
  assumes "validateConfig f (new_provider env (host_config ctx)) = Inl err"
  shows "init rv f env m ctx =
           (Inr (),
            \<lparr>ctx_set = (case rv of Index_ts \<Rightarrow> ctx_set m | Part_004 \<Rightarrow> True),
             module_provider = Some (new_provider env (host_config ctx))\<rparr>,
            ctx\<lparr>log_error := log_error ctx
                  @ [''Failed to register OpenAI TTS: '' @ exn_to_string err]\<rparr>)"
  using assms by (simp add: init_def Let_def)

lemma no_credential_apiKey:
  assumes "cfg_apiKey config = None \<or> cfg_apiKey config = Some []"
    and "env = None \<or> env = Some []"
  shows "\<not> truthy_string (apiKey (new_provider env config))"
  using assms
  by (auto simp: new_provider_def or_default_def or_undefined_def truthy_string_def)

text \<open>
  C7. When the configuration fails validation, \<open>init\<close> does not raise: it returns, having
  appended one error to the log (the text \<open>Failed to register OpenAI TTS:\<close> followed by
  the validation error) and having registered nothing. When neither the configuration
  nor the environment gives a credential, that logged message contains \<open>required\<close>.
\<close>

theorem init_fails_closed:
  "(\<forall>err. validateConfig f (new_provider env (host_config ctx)) = Inl err \<longrightarrow>
        fst (init rv f env m ctx) = Inr ()
      \<and> registered (snd (snd (init rv f env m ctx))) = registered ctx
      \<and> log_info (snd (snd (init rv f env m ctx))) = log_info ctx
      \<and> log_error (snd (snd (init rv f env m ctx)))
          = log_error ctx @ [''Failed to register OpenAI TTS: '' @ exn_to_string err])
   \<and> ((cfg_apiKey (host_config ctx) = None \<or> cfg_apiKey (host_config ctx) = Some [])
        \<and> (env = None \<or> env = Some []) \<longrightarrow>
        fst (init rv f env m ctx) = Inr ()
      \<and> registered (snd (snd (init rv f env m ctx))) = registered ctx
      \<and> (\<exists>msg. log_error (snd (snd (init rv f env m ctx))) = log_error ctx @ [msg]
               \<and> sublist ''required'' msg))"
proof -
  have a: "fst (init rv f env m ctx) = Inr ()
      \<and> registered (snd (snd (init rv f env m ctx))) = registered ctx
      \<and> log_info (snd (snd (init rv f env m ctx))) = log_info ctx
      \<and> log_error (snd (snd (init rv f env m ctx)))
          = log_error ctx @ [''Failed to register OpenAI TTS: '' @ exn_to_string err]"
    if "validateConfig f (new_provider env (host_config ctx)) = Inl err" for err
    by (simp add: init_on_failure [OF that])
  have b: "fst (init rv f env m ctx) = Inr ()
      \<and> registered (snd (snd (init rv f env m ctx))) = registered ctx
      \<and> (\<exists>msg. log_error (snd (snd (init rv f env m ctx))) = log_error ctx @ [msg]
               \<and> sublist ''required'' msg)"
    if "cfg_apiKey (host_config ctx) = None \<or> cfg_apiKey (host_config ctx) = Some []"
      "env = None \<or> env = Some []"
  proof -
    let ?e = "Error ''OPENAI_API_KEY required for OpenAI TTS''"
    have v: "validateConfig f (new_provider env (host_config ctx)) = Inl ?e"
      using that by (intro validateConfig_no_credential no_credential_apiKey)
    have "''Failed to register OpenAI TTS: '' @ exn_to_string ?e
        = ''Failed to register OpenAI TTS: Error: OPENAI_API_KEY '' @ ''required'' @ '' for OpenAI TTS''"
      by simp
    then have "sublist ''required'' (''Failed to register OpenAI TTS: '' @ exn_to_string ?e)"
      by (simp only: sublist_appendI)
    with a [OF v] show ?thesis by blast
  qed
  from a b show ?thesis by blast
qed

theorem init_fails_closed_witness:
  "(cfg_apiKey (host_config (host_with (sample_config\<lparr>cfg_apiKey := None\<rparr>))) = None
      \<or> cfg_apiKey (host_config (host_with (sample_config\<lparr>cfg_apiKey := None\<rparr>))) = Some [])
   \<and> ((None :: string option) = None \<or> (None :: string option) = Some [])
   \<and> validateConfig sample_num_to_string
        (new_provider None (host_config (host_with (sample_config\<lparr>cfg_apiKey := None\<rparr>))))
      = Inl (Error ''OPENAI_API_KEY required for OpenAI TTS'')
   \<and> fst (init Part_004 sample_num_to_string None fresh_module
            (host_with (sample_config\<lparr>cfg_apiKey := None\<rparr>))) = Inr ()
   \<and> registered (snd (snd (init Part_004 sample_num_to_string None fresh_module
            (host_with (sample_config\<lparr>cfg_apiKey := None\<rparr>))))) = []
   \<and> log_error (snd (snd (init Part_004 sample_num_to_string None fresh_module
            (host_with (sample_config\<lparr>cfg_apiKey := None\<rparr>)))))
      = [''Failed to register OpenAI TTS: Error: OPENAI_API_KEY required for OpenAI TTS'']"
proof -
  let ?ctx = "host_with (sample_config\<lparr>cfg_apiKey := None\<rparr>)"
  have h1: "cfg_apiKey (host_config ?ctx) = None \<or> cfg_apiKey (host_config ?ctx) = Some []"
    by (simp add: host_with_def)
  have h2: "(None :: string option) = None \<or> (None :: string option) = Some []"
    by simp
  have h3: "validateConfig sample_num_to_string (new_provider None (host_config ?ctx))
      = Inl (Error ''OPENAI_API_KEY required for OpenAI TTS'')"
    using h1 h2 by (intro validateConfig_no_credential no_credential_apiKey)
  have h4: "registered ?ctx = []" "log_error ?ctx = []"
    by (simp_all add: host_with_def)
  from init_fails_closed [of sample_num_to_string None ?ctx Part_004 fresh_module,
      THEN conjunct1, rule_format, OF h3]
  have "fst (init Part_004 sample_num_to_string None fresh_module ?ctx) = Inr ()
      \<and> registered (snd (snd (init Part_004 sample_num_to_string None fresh_module ?ctx))) = []
      \<and> log_error (snd (snd (init Part_004 sample_num_to_string None fresh_module ?ctx)))
          = [''Failed to register OpenAI TTS: Error: OPENAI_API_KEY required for OpenAI TTS'']"
    by (simp add: h4)
  with h1 h2 h3 show ?thesis by blast
qed

section \<open>The outbound call of \<open>synthesize\<close>\<close>

lemma synthesize_one_post:
  "sent (snd (synthesize rv p txt options net)) = sent net @ [synthesize_request rv p txt options]
   \<and> req_method (synthesize_request rv p txt options) = POST
   \<and> req_url (synthesize_request rv p txt options) = ''https://api.openai.com/v1/audio/speech''
   \<and> map_of (req_headers (synthesize_request rv p txt options)) ''Authorization''
       = Some (''Bearer '' @ apiKey p)
   \<and> req_body (synthesize_request rv p txt options)
       = Some (JSON_stringify (synthesize_body p txt options))
   \<and> req_timeout (synthesize_request rv p txt options) = synthesize_signal rv"
  by (simp add: synthesize_sent_last) (simp add: synthesize_request_def)

lemma synthesize_part_004_timeout:
  "req_timeout (synthesize_request Part_004 p txt options) = Some 30000"
  by (simp add: synthesize_request_def synthesize_signal_def)

text \<open>
  C8. Every call of \<open>synthesize\<close> sends exactly one request, a POST to the speech
  endpoint with the built body and the bearer credential. The 30-second timeout is
  there in the revision of \<^verbatim>\<open>src/unnamed/part_004\<close> only: the call of \<^verbatim>\<open>src/index.ts\<close> passes
  no signal, as this run of it shows, while \<open>healthCheck\<close> of the same file passes one.
\<close>

theorem synthesize_index_ts_without_timeout:
  "sent (snd (synthesize Index_ts sample_provider ''Hello world'' None
               (network_answering (Fulfilled (pcm_response [])))))
     = [synthesize_request Index_ts sample_provider ''Hello world'' None]
   \<and> req_method (synthesize_request Index_ts sample_provider ''Hello world'' None) = POST
   \<and> req_headers (synthesize_request Index_ts sample_provider ''Hello world'' None)
     = [(''Authorization'', ''Bearer sk-test-key''), (''Content-Type'', ''application/json'')]
   \<and> req_timeout (synthesize_request Index_ts sample_provider ''Hello world'' None) = None
   \<and> req_timeout (healthCheck_request sample_provider) = Some 5000
   \<and> req_timeout (synthesize_request Part_004 sample_provider ''Hello world'' None) = Some 30000"
  by (simp add: synthesize_sent_last)
     (simp add: synthesize_request_def synthesize_signal_def healthCheck_request_def
        sample_provider_fields)

end
